theory Spec2Isabelle
  imports Complex_Main
begin

section \<open>Values stored in the tables\<close>

text \<open>
  The models of \<^verbatim>\<open>gdatasea/models.py\<close> are SQLModel table classes: each class is a
  table, each annotated attribute a column, and \<^verbatim>\<open>__table_args__\<close> lists the
  table's UNIQUE and CHECK constraints. A column whose Python type is \<^verbatim>\<open>Optional\<close> or
  that is declared \<^verbatim>\<open>nullable=True\<close> holds an \<open>option\<close> here; a column that is NOT NULL
  holds a plain value. Python integers are \<open>int\<close>, strings are \<open>string\<close>, the floating
  point placement coordinates are read as the real numbers they denote, and a timestamp
  is the reading of the clock (\<^verbatim>\<open>_now()\<close>) taken when the object is built.
\<close>

datatype json =
    JNull
  | JBool bool
  | JInt int
  | JFloat real
  | JString string
  | JArray "json list"
  | JObject "(string \<times> json) list"

datatype DeviceDataType = simulation | measurement

datatype AnalysisFunctionTargetModel = tm_device_data | tm_die | tm_wafer

datatype error = ConstraintViolation | NotFound | IndexError

record Project =
  p_pkey :: "int option"
  p_project_id :: string
  p_suffix :: string
  p_description :: "string option"
  p_timestamp :: int

record Cell =
  c_pkey :: "int option"
  c_cell_id :: string
  c_attributes :: json
  c_project_pkey :: int
  c_timestamp :: int

record Device =
  d_pkey :: "int option"
  d_cell_pkey :: int
  d_device_id :: string
  d_attributes :: json
  d_x :: "real option"
  d_y :: "real option"
  d_angle :: "real option"
  d_mirror :: "bool option"
  d_parent_cell_pkey :: "int option"
  d_timestamp :: int

record Wafer =
  w_pkey :: "int option"
  w_wafer_id :: string
  w_description :: "string option"
  w_lot_id :: "string option"
  w_attributes :: json
  w_timestamp :: int
  w_project_pkey :: int

record Die =
  di_pkey :: "int option"
  di_x :: int
  di_y :: int
  di_die_id :: "string option"
  di_attributes :: json
  di_wafer_pkey :: int
  di_timestamp :: int

text \<open>
  \<^verbatim>\<open>DeviceData.device_pkey\<close> is annotated \<^verbatim>\<open>int\<close> but its column is declared
  \<^verbatim>\<open>nullable=True\<close>, so the table stores NULL there: the column is an \<open>option\<close>.
\<close>

record DeviceData =
  dd_pkey :: "int option"
  dd_data_type :: DeviceDataType
  dd_path :: string
  dd_thumbnail_path :: "string option"
  dd_attributes :: json
  dd_plotting_kwargs :: json
  dd_valid :: bool
  dd_device_pkey :: "int option"
  dd_die_pkey :: "int option"
  dd_timestamp :: int
  dd_timestamp_acquired :: "int option"

record AnalysisFunction =
  af_pkey :: "int option"
  af_timestamp :: int
  af_analysis_function_id :: string
  af_version :: int
  af_hash :: string
  af_function_path :: string
  af_target_model :: AnalysisFunctionTargetModel
  af_test_target_model_pkey :: int

record Analysis =
  a_pkey :: "int option"
  a_timestamp :: int
  a_parameters :: json
  a_output :: json
  a_summary_plot :: string
  a_attributes :: json
  a_is_latest :: bool
  a_input_hash :: string
  a_device_data_pkey :: "int option"
  a_die_pkey :: "int option"
  a_wafer_pkey :: "int option"
  a_analysis_function_pkey :: int

text \<open>
  The database: one list of rows per table, in insertion order. \<open>foreign_keys\<close> says
  whether the engine enforces the declared foreign keys (PostgreSQL does; SQLite, the
  default of \<^verbatim>\<open>database.py\<close>, only with its pragma switched on).
\<close>

record db =
  foreign_keys :: bool
  projects :: "Project list"
  cells :: "Cell list"
  devices :: "Device list"
  wafers :: "Wafer list"
  dies :: "Die list"
  device_datas :: "DeviceData list"
  analysis_functions :: "AnalysisFunction list"
  analyses :: "Analysis list"

definition empty_db :: "bool \<Rightarrow> db" where
  "empty_db fk = \<lparr>foreign_keys = fk, projects = [], cells = [], devices = [], wafers = [],
     dies = [], device_datas = [], analysis_functions = [], analyses = []\<rparr>"

section \<open>Primary and foreign keys\<close>

text \<open>
  \<^verbatim>\<open>pkey: Optional[int] = Field(default=None, primary_key=True)\<close>: a row that comes
  without a key gets the next one (one more than the largest key of the table, 1 in an
  empty table); a row that brings its own key is refused when the key is taken.
\<close>

definition pkeys :: "('r \<Rightarrow> int option) \<Rightarrow> 'r list \<Rightarrow> int list" where
  "pkeys sel rows = List.map_filter sel rows"

definition next_pkey :: "int list \<Rightarrow> int" where
  "next_pkey ks = (case ks of [] \<Rightarrow> 1 | k # r \<Rightarrow> fold max r k + 1)"

definition assign_pkey :: "int option \<Rightarrow> int list \<Rightarrow> error + int" where
  "assign_pkey p ks =
     (case p of
        None \<Rightarrow> Inr (next_pkey ks)
      | Some k \<Rightarrow> if k \<in> set ks then Inl ConstraintViolation else Inr k)"

text \<open>A foreign key holds when it is NULL, when the engine does not enforce it, or when
  the referenced table has a row with that key.\<close>

definition fk_ok :: "bool \<Rightarrow> int list \<Rightarrow> int option \<Rightarrow> bool" where
  "fk_ok enforced ks ref =
     (case ref of None \<Rightarrow> True | Some k \<Rightarrow> if enforced then k \<in> set ks else True)"

section \<open>The constraints of \<^verbatim>\<open>__table_args__\<close>\<close>

text \<open>
  A UNIQUE constraint compares the new row with each stored row; as in SQL, two rows
  collide only when every constrained column is non-NULL and equal. A CHECK constraint
  is a predicate of the row alone.
\<close>

definition unique_project_id :: "Project list \<Rightarrow> Project \<Rightarrow> bool" where
  "unique_project_id rows p = (\<not> list_ex (\<lambda>e. p_project_id e = p_project_id p) rows)"

definition unique_id_and_project_on_cell :: "Cell list \<Rightarrow> Cell \<Rightarrow> bool" where
  "unique_id_and_project_on_cell rows c =
     (\<not> list_ex (\<lambda>e. c_project_pkey e = c_project_pkey c \<and> c_cell_id e = c_cell_id c) rows)"

definition same_coord_cells :: "Device \<Rightarrow> Device \<Rightarrow> bool" where
  "same_coord_cells d e =
     (d_x d \<noteq> None \<and> d_y d \<noteq> None \<and> d_angle d \<noteq> None \<and> d_mirror d \<noteq> None \<and>
      d_parent_cell_pkey d \<noteq> None \<and>
      d_x e = d_x d \<and> d_y e = d_y d \<and> d_angle e = d_angle d \<and> d_mirror e = d_mirror d \<and>
      d_parent_cell_pkey e = d_parent_cell_pkey d \<and> d_cell_pkey e = d_cell_pkey d)"

definition unique_coord_cells_on_device :: "Device list \<Rightarrow> Device \<Rightarrow> bool" where
  "unique_coord_cells_on_device rows d = (\<not> list_ex (same_coord_cells d) rows)"

definition unique_device_ids_per_cell :: "Device list \<Rightarrow> Device \<Rightarrow> bool" where
  "unique_device_ids_per_cell rows d =
     (\<not> list_ex (\<lambda>e. d_cell_pkey e = d_cell_pkey d \<and> d_device_id e = d_device_id d) rows)"

text \<open>\<^verbatim>\<open>parent_cell_pkey <> cell_pkey\<close>: with a NULL parent the comparison is unknown,
  and a CHECK whose value is unknown passes.\<close>

definition unique_device_cell_references :: "Device \<Rightarrow> bool" where
  "unique_device_cell_references d =
     (case d_parent_cell_pkey d of None \<Rightarrow> True | Some p \<Rightarrow> p \<noteq> d_cell_pkey d)"

definition parent_cell_coordinate_reference_not_null :: "Device \<Rightarrow> bool" where
  "parent_cell_coordinate_reference_not_null d =
     ((d_parent_cell_pkey d = None \<and> d_x d = None \<and> d_y d = None \<and> d_angle d = None \<and>
       d_mirror d = None)
      \<or>
      (d_parent_cell_pkey d \<noteq> None \<and> d_x d \<noteq> None \<and> d_y d \<noteq> None \<and> d_angle d \<noteq> None \<and>
       d_mirror d \<noteq> None))"

definition unique_wafer_id_per_project :: "Wafer list \<Rightarrow> Wafer \<Rightarrow> bool" where
  "unique_wafer_id_per_project rows w =
     (\<not> list_ex (\<lambda>e. w_project_pkey e = w_project_pkey w \<and> w_wafer_id e = w_wafer_id w) rows)"

definition unique_wafer_die :: "Die list \<Rightarrow> Die \<Rightarrow> bool" where
  "unique_wafer_die rows d =
     (\<not> list_ex (\<lambda>e. di_x e = di_x d \<and> di_y e = di_y d \<and> di_wafer_pkey e = di_wafer_pkey d) rows)"

definition unique_analysis_function_id_version ::
  "AnalysisFunction list \<Rightarrow> AnalysisFunction \<Rightarrow> bool" where
  "unique_analysis_function_id_version rows f =
     (\<not> list_ex (\<lambda>e. af_analysis_function_id e = af_analysis_function_id f \<and>
                      af_version e = af_version f) rows)"

definition analysis_pkeys_xor_constraint :: "Analysis \<Rightarrow> bool" where
  "analysis_pkeys_xor_constraint a =
     ((1::int) = (if a_device_data_pkey a \<noteq> None then 1 else 0)
               + (if a_die_pkey a \<noteq> None then 1 else 0)
               + (if a_wafer_pkey a \<noteq> None then 1 else 0))"

section \<open>Inserting a row\<close>

text \<open>
  Adding an object and committing inserts its row. The engine checks the row's CHECK
  constraints, then the primary key and the UNIQUE constraints, then the foreign keys;
  the first failure aborts the insertion and the database stays as it was (the result
  is the error, and no new database is produced).
\<close>

definition insert_project :: "db \<Rightarrow> Project \<Rightarrow> error + db" where
  "insert_project s p =
     (case assign_pkey (p_pkey p) (pkeys p_pkey (projects s)) of
        Inl e \<Rightarrow> Inl e
      | Inr k \<Rightarrow>
          if \<not> unique_project_id (projects s) p then Inl ConstraintViolation
          else Inr (s\<lparr>projects := projects s @ [p\<lparr>p_pkey := Some k\<rparr>]\<rparr>))"

definition insert_cell :: "db \<Rightarrow> Cell \<Rightarrow> error + db" where
  "insert_cell s c =
     (case assign_pkey (c_pkey c) (pkeys c_pkey (cells s)) of
        Inl e \<Rightarrow> Inl e
      | Inr k \<Rightarrow>
          if \<not> unique_id_and_project_on_cell (cells s) c then Inl ConstraintViolation
          else if \<not> fk_ok (foreign_keys s) (pkeys p_pkey (projects s)) (Some (c_project_pkey c))
          then Inl NotFound
          else Inr (s\<lparr>cells := cells s @ [c\<lparr>c_pkey := Some k\<rparr>]\<rparr>))"

definition insert_device :: "db \<Rightarrow> Device \<Rightarrow> error + db" where
  "insert_device s d =
     (if \<not> unique_device_cell_references d then Inl ConstraintViolation
      else if \<not> parent_cell_coordinate_reference_not_null d then Inl ConstraintViolation
      else case assign_pkey (d_pkey d) (pkeys d_pkey (devices s)) of
        Inl e \<Rightarrow> Inl e
      | Inr k \<Rightarrow>
          if \<not> unique_coord_cells_on_device (devices s) d then Inl ConstraintViolation
          else if \<not> unique_device_ids_per_cell (devices s) d then Inl ConstraintViolation
          else if \<not> fk_ok (foreign_keys s) (pkeys c_pkey (cells s)) (Some (d_cell_pkey d))
          then Inl NotFound
          else if \<not> fk_ok (foreign_keys s) (pkeys c_pkey (cells s)) (d_parent_cell_pkey d)
          then Inl NotFound
          else Inr (s\<lparr>devices := devices s @ [d\<lparr>d_pkey := Some k\<rparr>]\<rparr>))"

definition insert_wafer :: "db \<Rightarrow> Wafer \<Rightarrow> error + db" where
  "insert_wafer s w =
     (case assign_pkey (w_pkey w) (pkeys w_pkey (wafers s)) of
        Inl e \<Rightarrow> Inl e
      | Inr k \<Rightarrow>
          if \<not> unique_wafer_id_per_project (wafers s) w then Inl ConstraintViolation
          else if \<not> fk_ok (foreign_keys s) (pkeys p_pkey (projects s)) (Some (w_project_pkey w))
          then Inl NotFound
          else Inr (s\<lparr>wafers := wafers s @ [w\<lparr>w_pkey := Some k\<rparr>]\<rparr>))"

definition insert_die :: "db \<Rightarrow> Die \<Rightarrow> error + db" where
  "insert_die s d =
     (case assign_pkey (di_pkey d) (pkeys di_pkey (dies s)) of
        Inl e \<Rightarrow> Inl e
      | Inr k \<Rightarrow>
          if \<not> unique_wafer_die (dies s) d then Inl ConstraintViolation
          else if \<not> fk_ok (foreign_keys s) (pkeys w_pkey (wafers s)) (Some (di_wafer_pkey d))
          then Inl NotFound
          else Inr (s\<lparr>dies := dies s @ [d\<lparr>di_pkey := Some k\<rparr>]\<rparr>))"

definition insert_device_data :: "db \<Rightarrow> DeviceData \<Rightarrow> error + db" where
  "insert_device_data s r =
     (case assign_pkey (dd_pkey r) (pkeys dd_pkey (device_datas s)) of
        Inl e \<Rightarrow> Inl e
      | Inr k \<Rightarrow>
          if \<not> fk_ok (foreign_keys s) (pkeys d_pkey (devices s)) (dd_device_pkey r)
          then Inl NotFound
          else if \<not> fk_ok (foreign_keys s) (pkeys di_pkey (dies s)) (dd_die_pkey r)
          then Inl NotFound
          else Inr (s\<lparr>device_datas := device_datas s @ [r\<lparr>dd_pkey := Some k\<rparr>]\<rparr>))"

definition insert_analysis_function :: "db \<Rightarrow> AnalysisFunction \<Rightarrow> error + db" where
  "insert_analysis_function s f =
     (case assign_pkey (af_pkey f) (pkeys af_pkey (analysis_functions s)) of
        Inl e \<Rightarrow> Inl e
      | Inr k \<Rightarrow>
          if \<not> unique_analysis_function_id_version (analysis_functions s) f
          then Inl ConstraintViolation
          else Inr (s\<lparr>analysis_functions := analysis_functions s @ [f\<lparr>af_pkey := Some k\<rparr>]\<rparr>))"

text \<open>\<^verbatim>\<open>AnalysisFunction(...)\<close>: every column but the key and the timestamp has no
  default and is NOT NULL, so the caller gives all six.\<close>

definition AnalysisFunction_init ::
  "int \<Rightarrow> string \<Rightarrow> int \<Rightarrow> string \<Rightarrow> string \<Rightarrow> AnalysisFunctionTargetModel \<Rightarrow> int
     \<Rightarrow> AnalysisFunction" where
  "AnalysisFunction_init now analysis_function_id version hash function_path target_model
       test_target_model_pkey =
     \<lparr>af_pkey = None, af_timestamp = now, af_analysis_function_id = analysis_function_id,
      af_version = version, af_hash = hash, af_function_path = function_path,
      af_target_model = target_model, af_test_target_model_pkey = test_target_model_pkey\<rparr>"

text \<open>\<open>stored_analysis\<close> is the row as the table keeps it (with its key), or the reason
  the insertion is refused.\<close>

definition stored_analysis :: "db \<Rightarrow> Analysis \<Rightarrow> error + Analysis" where
  "stored_analysis s a =
     (if \<not> analysis_pkeys_xor_constraint a then Inl ConstraintViolation
      else case assign_pkey (a_pkey a) (pkeys a_pkey (analyses s)) of
        Inl e \<Rightarrow> Inl e
      | Inr k \<Rightarrow>
          if \<not> fk_ok (foreign_keys s) (pkeys dd_pkey (device_datas s)) (a_device_data_pkey a)
          then Inl NotFound
          else if \<not> fk_ok (foreign_keys s) (pkeys di_pkey (dies s)) (a_die_pkey a)
          then Inl NotFound
          else if \<not> fk_ok (foreign_keys s) (pkeys w_pkey (wafers s)) (a_wafer_pkey a)
          then Inl NotFound
          else if \<not> fk_ok (foreign_keys s) (pkeys af_pkey (analysis_functions s))
                      (Some (a_analysis_function_pkey a))
          then Inl NotFound
          else Inr (a\<lparr>a_pkey := Some k\<rparr>))"

definition insert_analysis :: "db \<Rightarrow> Analysis \<Rightarrow> error + db" where
  "insert_analysis s a =
     (case stored_analysis s a of
        Inl e \<Rightarrow> Inl e
      | Inr r \<Rightarrow> Inr (s\<lparr>analyses := analyses s @ [r]\<rparr>))"

text \<open>
  \<^verbatim>\<open>Analysis(...)\<close> with the defaulted fields left out: no key yet, the clock's
  reading as timestamp, \<^verbatim>\<open>attributes = {}\<close> and \<^verbatim>\<open>is_latest = True\<close>.
\<close>

definition Analysis_init ::
  "int \<Rightarrow> json \<Rightarrow> json \<Rightarrow> string \<Rightarrow> string \<Rightarrow> int option \<Rightarrow> int option \<Rightarrow> int option \<Rightarrow> int
     \<Rightarrow> Analysis" where
  "Analysis_init now parameters output summary_plot input_hash device_data_pkey die_pkey
       wafer_pkey analysis_function_pkey =
     \<lparr>a_pkey = None, a_timestamp = now, a_parameters = parameters, a_output = output,
      a_summary_plot = summary_plot, a_attributes = JObject [], a_is_latest = True,
      a_input_hash = input_hash, a_device_data_pkey = device_data_pkey,
      a_die_pkey = die_pkey, a_wafer_pkey = wafer_pkey,
      a_analysis_function_pkey = analysis_function_pkey\<rparr>"

section \<open>Sequences of insertions\<close>

text \<open>
  A state of the store is what a sequence of insertions leaves, starting from the empty
  tables of \<^verbatim>\<open>create_db_and_tables\<close>. A refused insertion changes nothing and the
  next one goes on from the same state.
\<close>

datatype command =
    AddProject Project
  | AddCell Cell
  | AddDevice Device
  | AddWafer Wafer
  | AddDie Die
  | AddDeviceData DeviceData
  | AddAnalysisFunction AnalysisFunction
  | AddAnalysis Analysis

fun execute :: "db \<Rightarrow> command \<Rightarrow> error + db" where
  "execute s (AddProject p) = insert_project s p"
| "execute s (AddCell c) = insert_cell s c"
| "execute s (AddDevice d) = insert_device s d"
| "execute s (AddWafer w) = insert_wafer s w"
| "execute s (AddDie d) = insert_die s d"
| "execute s (AddDeviceData r) = insert_device_data s r"
| "execute s (AddAnalysisFunction f) = insert_analysis_function s f"
| "execute s (AddAnalysis a) = insert_analysis s a"

fun run :: "db \<Rightarrow> command list \<Rightarrow> db" where
  "run s [] = s"
| "run s (c # cs) = (case execute s c of Inl e \<Rightarrow> run s cs | Inr s' \<Rightarrow> run s' cs)"

text \<open>The number of target references of an Analysis row that are not NULL.\<close>

definition target_count :: "Analysis \<Rightarrow> nat" where
  "target_count a =
     length (filter (\<lambda>k. k \<noteq> None) [a_device_data_pkey a, a_die_pkey a, a_wafer_pkey a])"

text \<open>What \<^verbatim>\<open>unique_analysis_function_id_version\<close> compares: the id and the version of
  an analysis function.\<close>

definition version_key :: "AnalysisFunction \<Rightarrow> string \<times> int" where
  "version_key f = (af_analysis_function_id f, af_version f)"

section \<open>The display name of an analysis\<close>

text \<open>
  \<^verbatim>\<open>str(v)\<close> of a Python integer: its decimal digits, with a minus sign in front of a
  negative number.
\<close>

definition digit_char :: "nat \<Rightarrow> char" where
  "digit_char n = ''0123456789'' ! (n mod 10)"

function str_nat :: "nat \<Rightarrow> string" where
  "str_nat n = (if n < 10 then [digit_char n] else str_nat (n div 10) @ [digit_char (n mod 10)])"
  by pat_completeness auto
termination
  by (relation "measure id") auto

declare str_nat.simps [simp del]

definition str_int :: "int \<Rightarrow> string" where
  "str_int i = (if i < 0 then CHR ''-'' # str_nat (nat (- i)) else str_nat (nat i))"

text \<open>\<^verbatim>\<open>if v\<close> on an \<^verbatim>\<open>Optional[int]\<close>: \<^verbatim>\<open>None\<close> is false, and so is \<^verbatim>\<open>0\<close>.\<close>

definition truthy :: "int option \<Rightarrow> bool" where
  "truthy v = (case v of None \<Rightarrow> False | Some n \<Rightarrow> n \<noteq> 0)"

definition str_opt :: "int option \<Rightarrow> string" where
  "str_opt v = (case v of None \<Rightarrow> ''None'' | Some n \<Rightarrow> str_int n)"

text \<open>
  The property \<^verbatim>\<open>Analysis.analysis_id\<close>. The dictionary keeps its insertion order, the
  comprehension keeps the entries whose value is truthy, and \<^verbatim>\<open>[0]\<close> on an empty list
  raises \<^verbatim>\<open>IndexError\<close>. The first argument is the row's \<^verbatim>\<open>analysis_function\<close>,
  the object the relationship loads.
\<close>

definition analysis_id :: "AnalysisFunction \<Rightarrow> Analysis \<Rightarrow> error + string" where
  "analysis_id f a =
     (let mapping = [(''Device Data'', a_device_data_pkey a),
                     (''Die'', a_die_pkey a),
                     (''Wafer'', a_wafer_pkey a)];
          labels = map (\<lambda>(k, v). k @ '' #'' @ str_opt v) (filter (\<lambda>(k, v). truthy v) mapping)
      in case labels of
           [] \<Rightarrow> Inl IndexError
         | model_pkey # _ \<Rightarrow> Inr (af_analysis_function_id f @ '' on '' @ model_pkey))"

section \<open>Latest results and the recording of a result\<close>

text \<open>
  The target of an analysis: the one entity its row references, by the kind of the
  entity and its key. \<open>target_columns\<close> are the values of the three reference columns
  \<^verbatim>\<open>(device_data_pkey, die_pkey, wafer_pkey)\<close> of a row with that target.
\<close>

datatype target = DeviceDataTarget int | DieTarget int | WaferTarget int

fun target_columns :: "target \<Rightarrow> int option \<times> int option \<times> int option" where
  "target_columns (DeviceDataTarget k) = (Some k, None, None)"
| "target_columns (DieTarget k) = (None, Some k, None)"
| "target_columns (WaferTarget k) = (None, None, Some k)"

fun target_model_of :: "target \<Rightarrow> AnalysisFunctionTargetModel" where
  "target_model_of (DeviceDataTarget k) = tm_device_data"
| "target_model_of (DieTarget k) = tm_die"
| "target_model_of (WaferTarget k) = tm_wafer"

fun target_exists :: "db \<Rightarrow> target \<Rightarrow> bool" where
  "target_exists s (DeviceDataTarget k) = (k \<in> set (pkeys dd_pkey (device_datas s)))"
| "target_exists s (DieTarget k) = (k \<in> set (pkeys di_pkey (dies s)))"
| "target_exists s (WaferTarget k) = (k \<in> set (pkeys w_pkey (wafers s)))"

definition analysis_columns :: "Analysis \<Rightarrow> int option \<times> int option \<times> int option" where
  "analysis_columns a = (a_device_data_pkey a, a_die_pkey a, a_wafer_pkey a)"

text \<open>A row is a latest result of function \<open>f\<close> on target \<open>t\<close>; \<open>latest_count\<close> is how
  many rows of the table are.\<close>

definition latest_for :: "int \<Rightarrow> target \<Rightarrow> Analysis \<Rightarrow> bool" where
  "latest_for f t a =
     (a_is_latest a \<and> a_analysis_function_pkey a = f \<and> analysis_columns a = target_columns t)"

definition latest_count :: "db \<Rightarrow> int \<Rightarrow> target \<Rightarrow> nat" where
  "latest_count s f t = length (filter (latest_for f t) (analyses s))"

text \<open>A row without its \<^verbatim>\<open>is_latest\<close> flag: what is kept of an older result.\<close>

definition unflagged :: "Analysis \<Rightarrow> Analysis" where
  "unflagged a = a\<lparr>a_is_latest := False\<rparr>"

text \<open>
  Modelled from the spec: \<^verbatim>\<open>record_result\<close> is not in the repository's sources (they
  declare the columns \<^verbatim>\<open>is_latest\<close> and \<^verbatim>\<open>input_hash\<close> and nothing that writes
  them). The definitions below follow the protocol of the spec's section 4.4, step by
  step: (1) compute the input hash, a fingerprint of the parameters and of the target's
  state, here the function \<open>fingerprint\<close>; (2) look up the current latest Analysis of
  the function and the target; (3) when there is one and its hash is the new hash,
  return it and create nothing; (5) otherwise check that the function and the target
  exist (\<open>NotFound\<close>) and that the target is of the function's \<^verbatim>\<open>target_model\<close>
  (\<open>ConstraintViolation\<close>); (4) then, in one step, insert the new row with
  \<^verbatim>\<open>is_latest = true\<close> and flip the previous latest row, if any, to false.
\<close>

definition reusable :: "string \<Rightarrow> Analysis option \<Rightarrow> Analysis option" where
  "reusable input_hash latest =
     (case latest of
        None \<Rightarrow> None
      | Some prev \<Rightarrow> if a_input_hash prev = input_hash then Some prev else None)"

definition demote :: "Analysis option \<Rightarrow> Analysis list \<Rightarrow> Analysis list" where
  "demote latest rows =
     (case latest of
        None \<Rightarrow> rows
      | Some prev \<Rightarrow> map (\<lambda>r. if a_pkey r = a_pkey prev then unflagged r else r) rows)"

definition supersede :: "db \<Rightarrow> Analysis option \<Rightarrow> Analysis \<Rightarrow> error + db \<times> Analysis" where
  "supersede s latest new =
     (case stored_analysis s new of
        Inl e \<Rightarrow> Inl e
      | Inr r \<Rightarrow> Inr (s\<lparr>analyses := demote latest (analyses s) @ [r]\<rparr>, r))"

definition record_result ::
  "(json \<Rightarrow> db \<Rightarrow> target \<Rightarrow> string) \<Rightarrow> db \<Rightarrow> int \<Rightarrow> int \<Rightarrow> target \<Rightarrow> json \<Rightarrow> json \<Rightarrow> string
     \<Rightarrow> error + db \<times> Analysis" where
  "record_result fingerprint s now function t parameters output summary_plot =
     (let input_hash = fingerprint parameters s t;
          latest = find (latest_for function t) (analyses s)
      in case reusable input_hash latest of
           Some prev \<Rightarrow> Inr (s, prev)
         | None \<Rightarrow>
             (case find (\<lambda>f. af_pkey f = Some function) (analysis_functions s) of
                None \<Rightarrow> Inl NotFound
              | Some f \<Rightarrow>
                  if \<not> target_exists s t then Inl NotFound
                  else if af_target_model f \<noteq> target_model_of t then Inl ConstraintViolation
                  else case target_columns t of
                    (device_data_pkey, die_pkey, wafer_pkey) \<Rightarrow>
                      supersede s latest
                        (Analysis_init now parameters output summary_plot input_hash
                           device_data_pkey die_pkey wafer_pkey function)))"







text \<open>The Analysis object that \<open>record_result\<close> builds for a target: its one
  reference column set, the defaults elsewhere.\<close>

definition new_row ::
  "int \<Rightarrow> json \<Rightarrow> json \<Rightarrow> string \<Rightarrow> string \<Rightarrow> target \<Rightarrow> int \<Rightarrow> Analysis" where
  "new_row now p out plot h t f =
     (case target_columns t of (dd, di, w) \<Rightarrow> Analysis_init now p out plot h dd di w f)"

section \<open>Attributes\<close>

text \<open>
  \<^verbatim>\<open>attributes: ... = Field(sa_column=Column(JSON_VARIANT), default={})\<close>, in all of
  Cell, Device, Wafer, Die, DeviceData and Analysis: the attributes the caller gives, or
  the empty mapping when the caller gives none. The constructors below build an object
  of each class from its arguments, with every defaulted field at its default unless it
  is given; \<open>Analysis_with_attributes\<close> is \<^verbatim>\<open>Analysis(..., attributes=...)\<close>.
\<close>

definition attributes_or_default :: "json option \<Rightarrow> json" where
  "attributes_or_default given = (case given of None \<Rightarrow> JObject [] | Some v \<Rightarrow> v)"

definition Cell_init :: "int \<Rightarrow> string \<Rightarrow> json option \<Rightarrow> int \<Rightarrow> Cell" where
  "Cell_init now cell_id attributes project_pkey =
     \<lparr>c_pkey = None, c_cell_id = cell_id, c_attributes = attributes_or_default attributes,
      c_project_pkey = project_pkey, c_timestamp = now\<rparr>"

definition Device_init ::
  "int \<Rightarrow> int \<Rightarrow> string \<Rightarrow> json option \<Rightarrow> real option \<Rightarrow> real option \<Rightarrow> real option
     \<Rightarrow> bool option \<Rightarrow> int option \<Rightarrow> Device" where
  "Device_init now cell_pkey device_id attributes x y angle mirror parent_cell_pkey =
     \<lparr>d_pkey = None, d_cell_pkey = cell_pkey, d_device_id = device_id,
      d_attributes = attributes_or_default attributes, d_x = x, d_y = y, d_angle = angle,
      d_mirror = mirror, d_parent_cell_pkey = parent_cell_pkey, d_timestamp = now\<rparr>"

definition Wafer_init ::
  "int \<Rightarrow> string \<Rightarrow> string option \<Rightarrow> string option \<Rightarrow> json option \<Rightarrow> int \<Rightarrow> Wafer" where
  "Wafer_init now wafer_id description lot_id attributes project_pkey =
     \<lparr>w_pkey = None, w_wafer_id = wafer_id, w_description = description, w_lot_id = lot_id,
      w_attributes = attributes_or_default attributes, w_timestamp = now,
      w_project_pkey = project_pkey\<rparr>"

definition Die_init :: "int \<Rightarrow> int \<Rightarrow> int \<Rightarrow> string option \<Rightarrow> json option \<Rightarrow> int \<Rightarrow> Die" where
  "Die_init now x y die_id attributes wafer_pkey =
     \<lparr>di_pkey = None, di_x = x, di_y = y, di_die_id = die_id,
      di_attributes = attributes_or_default attributes, di_wafer_pkey = wafer_pkey,
      di_timestamp = now\<rparr>"

definition DeviceData_init ::
  "int \<Rightarrow> DeviceDataType \<Rightarrow> string \<Rightarrow> string option \<Rightarrow> json option \<Rightarrow> json option \<Rightarrow> bool option
     \<Rightarrow> int option \<Rightarrow> int option \<Rightarrow> int option \<Rightarrow> DeviceData" where
  "DeviceData_init now data_type path thumbnail_path attributes plotting_kwargs valid
       device_pkey die_pkey timestamp_acquired =
     \<lparr>dd_pkey = None, dd_data_type = data_type, dd_path = path,
      dd_thumbnail_path = thumbnail_path, dd_attributes = attributes_or_default attributes,
      dd_plotting_kwargs = attributes_or_default plotting_kwargs,
      dd_valid = (case valid of None \<Rightarrow> True | Some b \<Rightarrow> b),
      dd_device_pkey = device_pkey, dd_die_pkey = die_pkey, dd_timestamp = now,
      dd_timestamp_acquired = timestamp_acquired\<rparr>"

definition Analysis_with_attributes :: "json option \<Rightarrow> Analysis \<Rightarrow> Analysis" where
  "Analysis_with_attributes attributes a = a\<lparr>a_attributes := attributes_or_default attributes\<rparr>"

text \<open>
  Modelled from the spec: the encoding of a JSON column. The repository leaves it to the
  column type \<^verbatim>\<open>JSON_VARIANT\<close> (SQLAlchemy's JSON and JSONB) and has no code for it.
  The specification asks for a tagged union of null, boolean, number, string, array and
  map, "encoded/decoded at the storage boundary" (section 9), that round-trips "through
  whatever encoding the target implementation chooses" (section 6). The encoding chosen
  here writes a value as a sequence of tokens, an array and a mapping as their length
  followed by their elements, each entry of a mapping as its key and its value;
  \<open>decode\<close> reads the sequence back and fails (\<open>None\<close>) on one that is no value. The
  first argument of \<open>decode_value\<close> bounds the depth of nesting it follows; \<open>decode\<close>
  gives it the length of the sequence, which is always enough.
\<close>

datatype token = TNull | TBool bool | TInt int | TFloat real | TString string | TArray nat | TObject nat

fun encode :: "json \<Rightarrow> token list" where
  "encode JNull = [TNull]"
| "encode (JBool b) = [TBool b]"
| "encode (JInt i) = [TInt i]"
| "encode (JFloat x) = [TFloat x]"
| "encode (JString s) = [TString s]"
| "encode (JArray vs) = TArray (length vs) # concat (map encode vs)"
| "encode (JObject kvs) = TObject (length kvs) # concat (map (\<lambda>(k, v). TString k # encode v) kvs)"

fun decode_value :: "nat \<Rightarrow> token list \<Rightarrow> (json \<times> token list) option"
  and decode_values :: "nat \<Rightarrow> nat \<Rightarrow> token list \<Rightarrow> (json list \<times> token list) option"
  and decode_members :: "nat \<Rightarrow> nat \<Rightarrow> token list \<Rightarrow> ((string \<times> json) list \<times> token list) option"
  where
  "decode_value 0 ts = None"
| "decode_value (Suc fuel) [] = None"
| "decode_value (Suc fuel) (TNull # ts) = Some (JNull, ts)"
| "decode_value (Suc fuel) (TBool b # ts) = Some (JBool b, ts)"
| "decode_value (Suc fuel) (TInt i # ts) = Some (JInt i, ts)"
| "decode_value (Suc fuel) (TFloat x # ts) = Some (JFloat x, ts)"
| "decode_value (Suc fuel) (TString s # ts) = Some (JString s, ts)"
| "decode_value (Suc fuel) (TArray n # ts) =
     (case decode_values fuel n ts of
        None \<Rightarrow> None
      | Some (vs, rest) \<Rightarrow> Some (JArray vs, rest))"
| "decode_value (Suc fuel) (TObject n # ts) =
     (case decode_members fuel n ts of
        None \<Rightarrow> None
      | Some (kvs, rest) \<Rightarrow> Some (JObject kvs, rest))"
| "decode_values fuel 0 ts = Some ([], ts)"
| "decode_values fuel (Suc n) ts =
     (case decode_value fuel ts of
        None \<Rightarrow> None
      | Some (v, rest) \<Rightarrow>
          (case decode_values fuel n rest of
             None \<Rightarrow> None
           | Some (vs, rest') \<Rightarrow> Some (v # vs, rest')))"
| "decode_members fuel 0 ts = Some ([], ts)"
| "decode_members fuel (Suc n) (TString k # ts) =
     (case decode_value fuel ts of
        None \<Rightarrow> None
      | Some (v, rest) \<Rightarrow>
          (case decode_members fuel n rest of
             None \<Rightarrow> None
           | Some (kvs, rest') \<Rightarrow> Some ((k, v) # kvs, rest')))"
| "decode_members fuel (Suc n) ts = None"

definition decode :: "token list \<Rightarrow> json option" where
  "decode ts =
     (case decode_value (length ts) ts of
        Some (v, []) \<Rightarrow> Some v
      | _ \<Rightarrow> None)"

section \<open>Rows of a small design\<close>

text \<open>
  The rows of the scenario the specification walks through: project \<^verbatim>\<open>P1\<close> with the
  cells \<^verbatim>\<open>top\<close> and \<^verbatim>\<open>leaf\<close>, the device \<^verbatim>\<open>inst0\<close> of \<^verbatim>\<open>leaf\<close> placed in
  \<^verbatim>\<open>top\<close> at \<open>(10, 20)\<close>, turned by 90 and not mirrored, and the first version of the
  analysis function \<^verbatim>\<open>iv_curve\<close>.
\<close>

definition P1 :: Project where
  "P1 = \<lparr>p_pkey = None, p_project_id = ''P1'', p_suffix = ''gds'', p_description = None,
          p_timestamp = 0\<rparr>"

definition cell_top :: Cell where
  "cell_top = \<lparr>c_pkey = None, c_cell_id = ''top'', c_attributes = JObject [],
                c_project_pkey = 1, c_timestamp = 1\<rparr>"

definition cell_leaf :: Cell where
  "cell_leaf = \<lparr>c_pkey = None, c_cell_id = ''leaf'', c_attributes = JObject [],
                 c_project_pkey = 1, c_timestamp = 2\<rparr>"

definition inst0 :: Device where
  "inst0 = \<lparr>d_pkey = None, d_cell_pkey = 2, d_device_id = ''inst0'', d_attributes = JObject [],
             d_x = Some 10, d_y = Some 20, d_angle = Some 90, d_mirror = Some False,
             d_parent_cell_pkey = Some 1, d_timestamp = 3\<rparr>"

definition design_db :: db where
  "design_db = run (empty_db True) [AddProject P1, AddCell cell_top, AddCell cell_leaf]"

definition placed_db :: db where
  "placed_db = run design_db [AddDevice inst0]"

definition iv_curve :: AnalysisFunction where
  "iv_curve =
     AnalysisFunction_init 4 ''iv_curve'' 1 ''abc'' ''analysis/iv_curve.py'' tm_device_data 1"

text \<open>
  A measurement of \<^verbatim>\<open>inst0\<close>, the store that holds it and the analysis function, and
  the runs of \<^verbatim>\<open>iv_curve\<close> on it at a temperature: the parameters
  \<^verbatim>\<open>{"temp": n}\<close>, a fingerprint that reads the parameters alone, a call of
  \<^verbatim>\<open>record_result\<close>, and the Analysis object that such a run builds.
  \<open>orphan_data\<close> is a measurement that names no device.
\<close>

definition iv_data :: DeviceData where
  "iv_data = \<lparr>dd_pkey = None, dd_data_type = measurement, dd_path = ''data/iv.csv'',
     dd_thumbnail_path = None, dd_attributes = JObject [], dd_plotting_kwargs = JObject [],
     dd_valid = True, dd_device_pkey = Some 1, dd_die_pkey = None, dd_timestamp = 5,
     dd_timestamp_acquired = None\<rparr>"

definition orphan_data :: DeviceData where
  "orphan_data = \<lparr>dd_pkey = None, dd_data_type = measurement, dd_path = ''data/iv.csv'',
     dd_thumbnail_path = None, dd_attributes = JObject [], dd_plotting_kwargs = JObject [],
     dd_valid = True, dd_device_pkey = None, dd_die_pkey = None, dd_timestamp = 5,
     dd_timestamp_acquired = None\<rparr>"

definition measured_db :: db where
  "measured_db = run placed_db [AddDeviceData iv_data, AddAnalysisFunction iv_curve]"

definition temp :: "int \<Rightarrow> json" where
  "temp n = JObject [(''temp'', JInt n)]"

definition params_fingerprint :: "json \<Rightarrow> db \<Rightarrow> target \<Rightarrow> string" where
  "params_fingerprint p s t =
     (case p of JObject [(k, JInt n)] \<Rightarrow> k @ ''='' @ str_int n | _ \<Rightarrow> [])"


definition iv_result :: "int \<Rightarrow> int \<Rightarrow> Analysis" where
  "iv_result now n =
     Analysis_init now (temp n) JNull ''iv.png'' (''temp='' @ str_int n) (Some 1) None None 1"




text \<open>Attributes of a ring resonator, nested three deep, and a wafer and a die built
  with their defaults.\<close>

definition ring_attributes :: json where
  "ring_attributes =
     JObject [(''wavelength'', JFloat 1.55),
              (''tags'', JArray [JString ''ring'', JBool True, JNull]),
              (''geometry'', JObject [(''width'', JInt 500), (''layers'', JArray [JInt 1, JInt 2])])]"

definition wafer_w1 :: Wafer where
  "wafer_w1 = Wafer_init 3 ''W1'' None None None 1"

definition die_00 :: Die where
  "die_00 = Die_init 4 0 0 None None 1"

section \<open>Facts about the insertions\<close>

lemmas insert_defs = insert_project_def insert_cell_def insert_device_def insert_wafer_def
  insert_die_def insert_device_data_def insert_analysis_function_def insert_analysis_def
  stored_analysis_def assign_pkey_def next_pkey_def pkeys_def fk_ok_def List.map_filter_def
  empty_db_def

lemmas constraint_defs = unique_project_id_def unique_id_and_project_on_cell_def
  same_coord_cells_def unique_coord_cells_on_device_def unique_device_ids_per_cell_def
  unique_device_cell_references_def parent_cell_coordinate_reference_not_null_def
  unique_wafer_id_per_project_def unique_wafer_die_def unique_analysis_function_id_version_def
  analysis_pkeys_xor_constraint_def

lemma stored_analysis_Inr:
  "stored_analysis s a = Inr r \<Longrightarrow>
     analysis_pkeys_xor_constraint a \<and> (\<exists>k. r = a\<lparr>a_pkey := Some k\<rparr>)"
  unfolding stored_analysis_def by (auto split: if_splits sum.splits)

lemma xor_iff_count: "analysis_pkeys_xor_constraint a \<longleftrightarrow> target_count a = 1"
  by (simp add: analysis_pkeys_xor_constraint_def target_count_def)

lemma target_count_pkey [simp]: "target_count (a\<lparr>a_pkey := k\<rparr>) = target_count a"
  by (simp add: target_count_def)

text \<open>A property that the empty tables have and every accepted insertion keeps holds
  in every state of the store.\<close>

lemma run_invariant:
  assumes "P s" and "\<And>s c s'. P s \<Longrightarrow> execute s c = Inr s' \<Longrightarrow> P s'"
  shows "P (run s cs)"
  using assms(1)
proof (induction cs arbitrary: s)
  case Nil
  then show ?case by simp
next
  case (Cons c cs)
  show ?case
  proof (cases "execute s c")
    case (Inl e)
    with Cons show ?thesis by simp
  next
    case (Inr s')
    with Cons.prems assms(2) have "P s'" by blast
    with Cons.IH Inr show ?thesis by simp
  qed
qed

lemma execute_analyses:
  assumes "execute s c = Inr s'" and "list_all (\<lambda>a. target_count a = 1) (analyses s)"
  shows "list_all (\<lambda>a. target_count a = 1) (analyses s')"
proof (cases c)
  case (AddAnalysis a)
  with assms(1) obtain r where r: "stored_analysis s a = Inr r"
    and s': "analyses s' = analyses s @ [r]"
    by (auto simp: insert_analysis_def split: sum.splits)
  from stored_analysis_Inr[OF r] have "target_count r = 1"
    by (auto simp: xor_iff_count)
  with s' assms(2) show ?thesis by simp
qed (use assms in \<open>auto simp: insert_project_def insert_cell_def insert_device_def
      insert_wafer_def insert_die_def insert_device_data_def insert_analysis_function_def
      split: if_splits sum.splits\<close>)

lemma run_analyses_xor: "list_all (\<lambda>a. target_count a = 1) (analyses (run (empty_db fk) cs))"
  by (rule run_invariant) (simp add: empty_db_def, rule execute_analyses)

section \<open>The target of an Analysis row\<close>

text \<open>
  C1. Every Analysis row of the store has exactly one of its three target references
  \<^verbatim>\<open>device_data_pkey\<close>, \<^verbatim>\<open>die_pkey\<close>, \<^verbatim>\<open>wafer_pkey\<close> set: whatever sequence of
  insertions built the store, each row of the table counts one non-NULL reference. And
  the insertion of a row that counts another number (two of them set, such as the die
  and the wafer, or all three, or none) is refused with \<open>ConstraintViolation\<close>, by the
  CHECK constraint \<^verbatim>\<open>analysis_pkeys_xor_constraint\<close>.
\<close>

theorem analysis_exactly_one_target:
  "(a \<in> set (analyses (run (empty_db fk) cs)) \<longrightarrow> target_count a = 1) \<and>
   (target_count a \<noteq> 1 \<longrightarrow> insert_analysis s a = Inl ConstraintViolation)"
proof (intro conjI impI)
  assume "a \<in> set (analyses (run (empty_db fk) cs))"
  with run_analyses_xor[of fk cs] show "target_count a = 1"
    by (simp add: list_all_iff)
next
  assume "target_count a \<noteq> 1"
  then have "\<not> analysis_pkeys_xor_constraint a" by (simp add: xor_iff_count)
  then show "insert_analysis s a = Inl ConstraintViolation"
    by (simp add: insert_analysis_def stored_analysis_def)
qed

text \<open>At work: a row on die 7 is stored and counts one target; a row with both a die and
  a wafer, and a row with no target, are refused.\<close>

theorem analysis_exactly_one_target_witness:
  "Analysis_init 5 JNull JNull ''plot.png'' ''h1'' None (Some 7) None 1 \<lparr>a_pkey := Some 1\<rparr>
     \<in> set (analyses (run (empty_db False)
          [AddAnalysis (Analysis_init 5 JNull JNull ''plot.png'' ''h1'' None (Some 7) None 1)])) \<and>
   target_count (Analysis_init 5 JNull JNull ''plot.png'' ''h1'' None (Some 7) None 1
                   \<lparr>a_pkey := Some 1\<rparr>) = 1 \<and>
   target_count (Analysis_init 5 JNull JNull ''plot.png'' ''h1'' None (Some 7) (Some 3) 1) \<noteq> 1 \<and>
   insert_analysis (empty_db False)
     (Analysis_init 5 JNull JNull ''plot.png'' ''h1'' None (Some 7) (Some 3) 1)
     = Inl ConstraintViolation \<and>
   target_count (Analysis_init 5 JNull JNull ''plot.png'' ''h1'' None None None 1) \<noteq> 1 \<and>
   insert_analysis (empty_db False)
     (Analysis_init 5 JNull JNull ''plot.png'' ''h1'' None None None 1)
     = Inl ConstraintViolation"
proof -
  have m: "Analysis_init 5 JNull JNull ''plot.png'' ''h1'' None (Some 7) None 1 \<lparr>a_pkey := Some 1\<rparr>
     \<in> set (analyses (run (empty_db False)
          [AddAnalysis (Analysis_init 5 JNull JNull ''plot.png'' ''h1'' None (Some 7) None 1)]))"
    by (simp add: insert_defs constraint_defs Analysis_init_def)
  have two:
    "target_count (Analysis_init 5 JNull JNull ''plot.png'' ''h1'' None (Some 7) (Some 3) 1) \<noteq> 1"
    by (simp add: target_count_def Analysis_init_def)
  have none:
    "target_count (Analysis_init 5 JNull JNull ''plot.png'' ''h1'' None None None 1) \<noteq> 1"
    by (simp add: target_count_def Analysis_init_def)
  from m two none
    analysis_exactly_one_target
      [of "Analysis_init 5 JNull JNull ''plot.png'' ''h1'' None (Some 7) None 1 \<lparr>a_pkey := Some 1\<rparr>"
          False "[AddAnalysis (Analysis_init 5 JNull JNull ''plot.png'' ''h1'' None (Some 7) None 1)]"]
    analysis_exactly_one_target
      [of "Analysis_init 5 JNull JNull ''plot.png'' ''h1'' None (Some 7) (Some 3) 1" _ _
          "empty_db False"]
    analysis_exactly_one_target
      [of "Analysis_init 5 JNull JNull ''plot.png'' ''h1'' None None None 1" _ _ "empty_db False"]
  show ?thesis by blast
qed

lemma insert_device_Inr:
  "insert_device s d = Inr s' \<Longrightarrow>
     unique_device_cell_references d \<and> parent_cell_coordinate_reference_not_null d \<and>
     unique_coord_cells_on_device (devices s) d \<and> unique_device_ids_per_cell (devices s) d \<and>
     (\<exists>k. s' = s\<lparr>devices := devices s @ [d\<lparr>d_pkey := Some k\<rparr>]\<rparr>)"
  unfolding insert_device_def by (auto split: if_splits sum.splits)

lemma check_pkey [simp]:
  "parent_cell_coordinate_reference_not_null (d\<lparr>d_pkey := k\<rparr>) =
     parent_cell_coordinate_reference_not_null d"
  by (simp add: parent_cell_coordinate_reference_not_null_def)

lemma execute_devices:
  assumes "execute s c = Inr s'"
    and "list_all parent_cell_coordinate_reference_not_null (devices s)"
  shows "list_all parent_cell_coordinate_reference_not_null (devices s')"
proof (cases c)
  case (AddDevice d)
  with assms(1) have "insert_device s d = Inr s'" by simp
  from insert_device_Inr[OF this] assms(2) show ?thesis by auto
qed (use assms in \<open>auto simp: insert_project_def insert_cell_def insert_analysis_def
      insert_wafer_def insert_die_def insert_device_data_def insert_analysis_function_def
      split: if_splits sum.splits\<close>)

lemma run_devices_check:
  "list_all parent_cell_coordinate_reference_not_null (devices (run (empty_db fk) cs))"
  by (rule run_invariant) (simp add: empty_db_def, rule execute_devices)

text \<open>The scenario's tables, row by row.\<close>

lemmas example_defs = P1_def cell_top_def cell_leaf_def inst0_def design_db_def

lemma design_db_eq:
  "design_db = \<lparr>foreign_keys = True, projects = [P1\<lparr>p_pkey := Some 1\<rparr>],
     cells = [cell_top\<lparr>c_pkey := Some 1\<rparr>, cell_leaf\<lparr>c_pkey := Some 2\<rparr>], devices = [],
     wafers = [], dies = [], device_datas = [], analysis_functions = [], analyses = []\<rparr>"
  by (simp add: example_defs insert_defs constraint_defs)

lemma placed_db_eq:
  "placed_db = design_db\<lparr>devices := [inst0\<lparr>d_pkey := Some 1\<rparr>]\<rparr>"
  by (simp add: placed_db_def design_db_eq) (simp add: example_defs insert_defs constraint_defs)

section \<open>The placement of a Device\<close>

text \<open>
  C4. In every Device row of the store, \<^verbatim>\<open>parent_cell_pkey\<close> is set exactly when the
  four placement fields \<^verbatim>\<open>x\<close>, \<^verbatim>\<open>y\<close>, \<^verbatim>\<open>angle\<close>, \<^verbatim>\<open>mirror\<close> are all set, and
  the four fields are either all NULL or all set: whatever sequence of insertions built
  the store, no Device is partially placed. The insertion of a device whose parent
  reference and placement fields disagree is refused with \<open>ConstraintViolation\<close>, by
  the CHECK constraint \<^verbatim>\<open>parent_cell_coordinate_reference_not_null\<close>.
\<close>

theorem device_placement_all_or_none:
  "(d \<in> set (devices (run (empty_db fk) cs)) \<longrightarrow>
      ((d_parent_cell_pkey d \<noteq> None) =
         (d_x d \<noteq> None \<and> d_y d \<noteq> None \<and> d_angle d \<noteq> None \<and> d_mirror d \<noteq> None)) \<and>
      ((d_x d = None \<and> d_y d = None \<and> d_angle d = None \<and> d_mirror d = None) \<or>
       (d_x d \<noteq> None \<and> d_y d \<noteq> None \<and> d_angle d \<noteq> None \<and> d_mirror d \<noteq> None))) \<and>
   (((d_parent_cell_pkey d \<noteq> None) \<noteq>
         (d_x d \<noteq> None \<and> d_y d \<noteq> None \<and> d_angle d \<noteq> None \<and> d_mirror d \<noteq> None))
      \<longrightarrow> insert_device s d = Inl ConstraintViolation)"
proof (intro conjI impI)
  assume "d \<in> set (devices (run (empty_db fk) cs))"
  with run_devices_check[of fk cs] have c: "parent_cell_coordinate_reference_not_null d"
    by (simp add: list_all_iff)
  from c show "(d_parent_cell_pkey d \<noteq> None) =
         (d_x d \<noteq> None \<and> d_y d \<noteq> None \<and> d_angle d \<noteq> None \<and> d_mirror d \<noteq> None)"
    by (auto simp: parent_cell_coordinate_reference_not_null_def)
  from c show "(d_x d = None \<and> d_y d = None \<and> d_angle d = None \<and> d_mirror d = None) \<or>
       (d_x d \<noteq> None \<and> d_y d \<noteq> None \<and> d_angle d \<noteq> None \<and> d_mirror d \<noteq> None)"
    by (auto simp: parent_cell_coordinate_reference_not_null_def)
next
  assume "(d_parent_cell_pkey d \<noteq> None) \<noteq>
         (d_x d \<noteq> None \<and> d_y d \<noteq> None \<and> d_angle d \<noteq> None \<and> d_mirror d \<noteq> None)"
  then have "\<not> parent_cell_coordinate_reference_not_null d"
    by (auto simp: parent_cell_coordinate_reference_not_null_def)
  then show "insert_device s d = Inl ConstraintViolation"
    by (simp add: insert_device_def)
qed

text \<open>At work: \<^verbatim>\<open>inst0\<close> is stored with its parent cell and all four fields; the same
  device with its angle left out is refused.\<close>

theorem device_placement_all_or_none_witness:
  "inst0\<lparr>d_pkey := Some 1\<rparr> \<in> set (devices (run (empty_db True)
       [AddProject P1, AddCell cell_top, AddCell cell_leaf, AddDevice inst0])) \<and>
   d_parent_cell_pkey (inst0\<lparr>d_pkey := Some 1\<rparr>) \<noteq> None \<and>
   d_x (inst0\<lparr>d_pkey := Some 1\<rparr>) \<noteq> None \<and> d_y (inst0\<lparr>d_pkey := Some 1\<rparr>) \<noteq> None \<and>
   d_angle (inst0\<lparr>d_pkey := Some 1\<rparr>) \<noteq> None \<and> d_mirror (inst0\<lparr>d_pkey := Some 1\<rparr>) \<noteq> None \<and>
   d_parent_cell_pkey (inst0\<lparr>d_angle := None\<rparr>) \<noteq> None \<and> d_angle (inst0\<lparr>d_angle := None\<rparr>) = None \<and>
   insert_device design_db (inst0\<lparr>d_angle := None\<rparr>) = Inl ConstraintViolation"
proof -
  have m: "inst0\<lparr>d_pkey := Some 1\<rparr> \<in> set (devices (run (empty_db True)
       [AddProject P1, AddCell cell_top, AddCell cell_leaf, AddDevice inst0]))"
    by (simp add: example_defs insert_defs constraint_defs)
  have p: "(d_parent_cell_pkey (inst0\<lparr>d_angle := None\<rparr>) \<noteq> None) \<noteq>
     (d_x (inst0\<lparr>d_angle := None\<rparr>) \<noteq> None \<and> d_y (inst0\<lparr>d_angle := None\<rparr>) \<noteq> None \<and>
      d_angle (inst0\<lparr>d_angle := None\<rparr>) \<noteq> None \<and> d_mirror (inst0\<lparr>d_angle := None\<rparr>) \<noteq> None)"
    by (simp add: inst0_def)
  have q: "d_parent_cell_pkey (inst0\<lparr>d_angle := None\<rparr>) \<noteq> None \<and> d_angle (inst0\<lparr>d_angle := None\<rparr>) = None"
    "d_parent_cell_pkey (inst0\<lparr>d_pkey := Some 1\<rparr>) \<noteq> None"
    by (simp_all add: inst0_def)
  from m p q
    device_placement_all_or_none [of "inst0\<lparr>d_pkey := Some 1\<rparr>" True
      "[AddProject P1, AddCell cell_top, AddCell cell_leaf, AddDevice inst0]"]
    device_placement_all_or_none [of "inst0\<lparr>d_angle := None\<rparr>" _ _ design_db]
  show ?thesis by blast
qed

text \<open>
  C5. The placement of a Device is unique. A device that is placed (it names a parent
  cell, other than its own cell, and gives all four placement fields), whose owning and
  parent cells exist, whose placement \<^verbatim>\<open>(x, y, angle, mirror, parent_cell, cell)\<close> and
  whose name within its cell are not taken, is inserted: the store gains its row, under
  the next key. After that, the insertion of a second device with the same parent cell,
  cell, x, y, angle and mirror is refused with \<open>ConstraintViolation\<close>, whatever its name
  and key; a refused insertion yields no new store, so the store stays as it was.
\<close>

theorem device_placement_unique:
  "(d_pkey d = None \<and> d_parent_cell_pkey d = Some p \<and> p \<noteq> d_cell_pkey d \<and>
    d_x d \<noteq> None \<and> d_y d \<noteq> None \<and> d_angle d \<noteq> None \<and> d_mirror d \<noteq> None \<and>
    unique_coord_cells_on_device (devices s) d \<and> unique_device_ids_per_cell (devices s) d \<and>
    d_cell_pkey d \<in> set (pkeys c_pkey (cells s)) \<and> p \<in> set (pkeys c_pkey (cells s))
    \<longrightarrow> insert_device s d =
          Inr (s\<lparr>devices := devices s @ [d\<lparr>d_pkey := Some (next_pkey (pkeys d_pkey (devices s)))\<rparr>]\<rparr>))
   \<and>
   (insert_device s d = Inr s' \<and> d_parent_cell_pkey d \<noteq> None \<and>
    d_parent_cell_pkey d2 = d_parent_cell_pkey d \<and> d_cell_pkey d2 = d_cell_pkey d \<and>
    d_x d2 = d_x d \<and> d_y d2 = d_y d \<and> d_angle d2 = d_angle d \<and> d_mirror d2 = d_mirror d
    \<longrightarrow> insert_device s' d2 = Inl ConstraintViolation)"
proof (intro conjI impI)
  assume h: "d_pkey d = None \<and> d_parent_cell_pkey d = Some p \<and> p \<noteq> d_cell_pkey d \<and>
    d_x d \<noteq> None \<and> d_y d \<noteq> None \<and> d_angle d \<noteq> None \<and> d_mirror d \<noteq> None \<and>
    unique_coord_cells_on_device (devices s) d \<and> unique_device_ids_per_cell (devices s) d \<and>
    d_cell_pkey d \<in> set (pkeys c_pkey (cells s)) \<and> p \<in> set (pkeys c_pkey (cells s))"
  then have "unique_device_cell_references d" "parent_cell_coordinate_reference_not_null d"
    by (auto simp: unique_device_cell_references_def parent_cell_coordinate_reference_not_null_def)
  with h show "insert_device s d =
          Inr (s\<lparr>devices := devices s @ [d\<lparr>d_pkey := Some (next_pkey (pkeys d_pkey (devices s)))\<rparr>]\<rparr>)"
    by (simp add: insert_device_def assign_pkey_def fk_ok_def)
next
  assume h: "insert_device s d = Inr s' \<and> d_parent_cell_pkey d \<noteq> None \<and>
    d_parent_cell_pkey d2 = d_parent_cell_pkey d \<and> d_cell_pkey d2 = d_cell_pkey d \<and>
    d_x d2 = d_x d \<and> d_y d2 = d_y d \<and> d_angle d2 = d_angle d \<and> d_mirror d2 = d_mirror d"
  from insert_device_Inr[of s d s'] h obtain k where
    c: "parent_cell_coordinate_reference_not_null d"
    and s': "devices s' = devices s @ [d\<lparr>d_pkey := Some k\<rparr>]" by auto
  from c h have "same_coord_cells d2 (d\<lparr>d_pkey := Some k\<rparr>)"
    by (auto simp: same_coord_cells_def parent_cell_coordinate_reference_not_null_def)
  with s' have "\<not> unique_coord_cells_on_device (devices s') d2"
    by (simp add: unique_coord_cells_on_device_def)
  then show "insert_device s' d2 = Inl ConstraintViolation"
    by (simp add: insert_device_def assign_pkey_def split: option.splits)
qed

text \<open>At work: the scenario of the specification. \<^verbatim>\<open>inst0\<close> goes into the store of
  \<^verbatim>\<open>P1\<close>, \<^verbatim>\<open>top\<close> and \<^verbatim>\<open>leaf\<close>; a device \<^verbatim>\<open>inst1\<close> at the same placement is
  refused.\<close>

theorem device_placement_unique_witness:
  "insert_device design_db inst0 = Inr placed_db \<and>
   d_parent_cell_pkey inst0 = Some 1 \<and>
   d_device_id (inst0\<lparr>d_device_id := ''inst1''\<rparr>) \<noteq> d_device_id inst0 \<and>
   insert_device placed_db (inst0\<lparr>d_device_id := ''inst1''\<rparr>) = Inl ConstraintViolation"
proof -
  have h: "d_pkey inst0 = None \<and> d_parent_cell_pkey inst0 = Some 1 \<and> 1 \<noteq> d_cell_pkey inst0 \<and>
    d_x inst0 \<noteq> None \<and> d_y inst0 \<noteq> None \<and> d_angle inst0 \<noteq> None \<and> d_mirror inst0 \<noteq> None \<and>
    unique_coord_cells_on_device (devices design_db) inst0 \<and>
    unique_device_ids_per_cell (devices design_db) inst0 \<and>
    d_cell_pkey inst0 \<in> set (pkeys c_pkey (cells design_db)) \<and>
    1 \<in> set (pkeys c_pkey (cells design_db))"
    by (simp add: design_db_eq inst0_def constraint_defs pkeys_def List.map_filter_def)
  have e: "design_db\<lparr>devices := devices design_db @
        [inst0\<lparr>d_pkey := Some (next_pkey (pkeys d_pkey (devices design_db)))\<rparr>]\<rparr> = placed_db"
    by (simp add: placed_db_eq design_db_eq next_pkey_def pkeys_def List.map_filter_def)
  from h device_placement_unique [of inst0 1 design_db]
  have "insert_device design_db inst0 = Inr (design_db\<lparr>devices := devices design_db @
        [inst0\<lparr>d_pkey := Some (next_pkey (pkeys d_pkey (devices design_db)))\<rparr>]\<rparr>)"
    by blast
  with e have first: "insert_device design_db inst0 = Inr placed_db" by simp
  have same: "d_parent_cell_pkey inst0 \<noteq> None \<and>
    d_parent_cell_pkey (inst0\<lparr>d_device_id := ''inst1''\<rparr>) = d_parent_cell_pkey inst0 \<and>
    d_cell_pkey (inst0\<lparr>d_device_id := ''inst1''\<rparr>) = d_cell_pkey inst0 \<and>
    d_x (inst0\<lparr>d_device_id := ''inst1''\<rparr>) = d_x inst0 \<and>
    d_y (inst0\<lparr>d_device_id := ''inst1''\<rparr>) = d_y inst0 \<and>
    d_angle (inst0\<lparr>d_device_id := ''inst1''\<rparr>) = d_angle inst0 \<and>
    d_mirror (inst0\<lparr>d_device_id := ''inst1''\<rparr>) = d_mirror inst0"
    by (simp add: inst0_def)
  from first same
    device_placement_unique [of inst0 _ design_db placed_db "inst0\<lparr>d_device_id := ''inst1''\<rparr>"]
  have second: "insert_device placed_db (inst0\<lparr>d_device_id := ''inst1''\<rparr>) = Inl ConstraintViolation"
    by blast
  have "d_device_id (inst0\<lparr>d_device_id := ''inst1''\<rparr>) \<noteq> d_device_id inst0"
    by (simp add: inst0_def)
  with first second h show ?thesis by blast
qed

section \<open>The versions of an analysis function\<close>

text \<open>
  C6. Registering a version of an analysis function is creating its AnalysisFunction
  row from the function's id, version, hash, path and target model (and the key of the
  test target, a column without a default). When no stored row has this id and version,
  the table gains one row, under the next key, that holds exactly the id, version, hash,
  path and target model that were registered. When a stored row has the same id and
  version, the insertion is refused with \<open>ConstraintViolation\<close>, by the UNIQUE
  constraint \<^verbatim>\<open>unique_analysis_function_id_version\<close>, and the table stays as it was
  (no new store is produced).
\<close>

theorem analysis_function_version_unique:
  "(\<not> list_ex (\<lambda>e. af_analysis_function_id e = function_id \<and> af_version e = version)
          (analysis_functions s)
    \<longrightarrow> insert_analysis_function s
            (AnalysisFunction_init now function_id version hash path target_model test_pkey) =
          Inr (s\<lparr>analysis_functions := analysis_functions s @
                 [\<lparr>af_pkey = Some (next_pkey (pkeys af_pkey (analysis_functions s))),
                   af_timestamp = now, af_analysis_function_id = function_id,
                   af_version = version, af_hash = hash, af_function_path = path,
                   af_target_model = target_model,
                   af_test_target_model_pkey = test_pkey\<rparr>]\<rparr>))
   \<and>
   (e \<in> set (analysis_functions s) \<and> af_analysis_function_id e = function_id \<and>
    af_version e = version
    \<longrightarrow> insert_analysis_function s
            (AnalysisFunction_init now function_id version hash path target_model test_pkey) =
          Inl ConstraintViolation)"
proof (intro conjI impI)
  assume "\<not> list_ex (\<lambda>e. af_analysis_function_id e = function_id \<and> af_version e = version)
          (analysis_functions s)"
  then show "insert_analysis_function s
            (AnalysisFunction_init now function_id version hash path target_model test_pkey) =
          Inr (s\<lparr>analysis_functions := analysis_functions s @
                 [\<lparr>af_pkey = Some (next_pkey (pkeys af_pkey (analysis_functions s))),
                   af_timestamp = now, af_analysis_function_id = function_id,
                   af_version = version, af_hash = hash, af_function_path = path,
                   af_target_model = target_model,
                   af_test_target_model_pkey = test_pkey\<rparr>]\<rparr>)"
    by (simp add: insert_analysis_function_def assign_pkey_def AnalysisFunction_init_def
        unique_analysis_function_id_version_def)
next
  assume "e \<in> set (analysis_functions s) \<and> af_analysis_function_id e = function_id \<and>
    af_version e = version"
  then have "list_ex (\<lambda>e. af_analysis_function_id e = function_id \<and> af_version e = version)
          (analysis_functions s)"
    by (auto simp: list_ex_iff)
  then show "insert_analysis_function s
            (AnalysisFunction_init now function_id version hash path target_model test_pkey) =
          Inl ConstraintViolation"
    by (simp add: insert_analysis_function_def assign_pkey_def AnalysisFunction_init_def
        unique_analysis_function_id_version_def)
qed

text \<open>At work: version 1 of \<^verbatim>\<open>iv_curve\<close> is registered in the empty store; version 1
  again, with another hash and path, is refused.\<close>

theorem analysis_function_version_unique_witness:
  "insert_analysis_function (empty_db True)
       (AnalysisFunction_init 4 ''iv_curve'' 1 ''abc'' ''analysis/iv_curve.py'' tm_device_data 1) =
     Inr ((empty_db True)\<lparr>analysis_functions :=
            [\<lparr>af_pkey = Some 1, af_timestamp = 4, af_analysis_function_id = ''iv_curve'',
              af_version = 1, af_hash = ''abc'', af_function_path = ''analysis/iv_curve.py'',
              af_target_model = tm_device_data, af_test_target_model_pkey = 1\<rparr>]\<rparr>) \<and>
   iv_curve\<lparr>af_pkey := Some 1\<rparr> \<in>
     set (analysis_functions ((empty_db True)\<lparr>analysis_functions := [iv_curve\<lparr>af_pkey := Some 1\<rparr>]\<rparr>)) \<and>
   insert_analysis_function ((empty_db True)\<lparr>analysis_functions := [iv_curve\<lparr>af_pkey := Some 1\<rparr>]\<rparr>)
       (AnalysisFunction_init 9 ''iv_curve'' 1 ''xyz'' ''analysis/iv_curve2.py'' tm_device_data 1) =
     Inl ConstraintViolation"
proof -
  have a: "\<not> list_ex (\<lambda>e. af_analysis_function_id e = ''iv_curve'' \<and> af_version e = 1)
          (analysis_functions (empty_db True))"
    by (simp add: empty_db_def)
  from a analysis_function_version_unique
      [of "''iv_curve''" 1 "empty_db True" 4 "''abc''" "''analysis/iv_curve.py''" tm_device_data 1]
  have first: "insert_analysis_function (empty_db True)
       (AnalysisFunction_init 4 ''iv_curve'' 1 ''abc'' ''analysis/iv_curve.py'' tm_device_data 1) =
     Inr ((empty_db True)\<lparr>analysis_functions :=
            [\<lparr>af_pkey = Some 1, af_timestamp = 4, af_analysis_function_id = ''iv_curve'',
              af_version = 1, af_hash = ''abc'', af_function_path = ''analysis/iv_curve.py'',
              af_target_model = tm_device_data, af_test_target_model_pkey = 1\<rparr>]\<rparr>)"
    by (simp add: empty_db_def next_pkey_def pkeys_def List.map_filter_def)
  have b: "iv_curve\<lparr>af_pkey := Some 1\<rparr> \<in>
     set (analysis_functions ((empty_db True)\<lparr>analysis_functions := [iv_curve\<lparr>af_pkey := Some 1\<rparr>]\<rparr>)) \<and>
     af_analysis_function_id (iv_curve\<lparr>af_pkey := Some 1\<rparr>) = ''iv_curve'' \<and>
     af_version (iv_curve\<lparr>af_pkey := Some 1\<rparr>) = 1"
    by (simp add: iv_curve_def AnalysisFunction_init_def)
  from b analysis_function_version_unique
      [of "''iv_curve''" 1 "(empty_db True)\<lparr>analysis_functions := [iv_curve\<lparr>af_pkey := Some 1\<rparr>]\<rparr>"
          9 "''xyz''" "''analysis/iv_curve2.py''" tm_device_data 1 "iv_curve\<lparr>af_pkey := Some 1\<rparr>"]
  have second: "insert_analysis_function
       ((empty_db True)\<lparr>analysis_functions := [iv_curve\<lparr>af_pkey := Some 1\<rparr>]\<rparr>)
       (AnalysisFunction_init 9 ''iv_curve'' 1 ''xyz'' ''analysis/iv_curve2.py'' tm_device_data 1) =
     Inl ConstraintViolation"
    by blast
  from first b second show ?thesis by blast
qed

section \<open>The device of a DeviceData row\<close>

text \<open>
  C9. Every DeviceData row is attached to a Device, its device reference never NULL.
  The table does not keep this: \<^verbatim>\<open>device_pkey\<close> is declared \<^verbatim>\<open>nullable=True\<close>
  (against its annotation \<^verbatim>\<open>int\<close>), so the insertion of a measurement that names no
  device is accepted, here into the store of the scenario with the foreign keys enforced,
  and the stored row has no device.
\<close>

theorem device_data_without_device:
  "insert_device_data placed_db orphan_data =
     Inr (placed_db\<lparr>device_datas := [orphan_data\<lparr>dd_pkey := Some 1\<rparr>]\<rparr>) \<and>
   dd_device_pkey (orphan_data\<lparr>dd_pkey := Some 1\<rparr>) = None"
  by (simp add: placed_db_eq design_db_eq orphan_data_def insert_device_data_def assign_pkey_def
      next_pkey_def pkeys_def List.map_filter_def fk_ok_def)

section \<open>The display name\<close>

lemma str_int_examples: "str_int 42 = ''42''" "str_int 7 = ''7''" "str_int (-305) = ''-305''" "str_int 0 = ''0''"
  by (simp_all add: str_int_def str_nat.simps digit_char_def)

lemma str_int_temps: "str_int 25 = ''25''" "str_int 30 = ''30''"
  by (simp_all add: str_int_def str_nat.simps digit_char_def)

lemma analysis_id_cases:
  "analysis_id f a =
     (if truthy (a_device_data_pkey a)
      then Inr (af_analysis_function_id f @ '' on Device Data #'' @ str_opt (a_device_data_pkey a))
      else if truthy (a_die_pkey a)
      then Inr (af_analysis_function_id f @ '' on Die #'' @ str_opt (a_die_pkey a))
      else if truthy (a_wafer_pkey a)
      then Inr (af_analysis_function_id f @ '' on Wafer #'' @ str_opt (a_wafer_pkey a))
      else Inl IndexError)"
  by (simp add: analysis_id_def)

text \<open>
  C7. For an Analysis row with exactly one target reference, \<^verbatim>\<open>analysis_id\<close> is the
  function's id, \<^verbatim>\<open>" on "\<close>, the label of the reference and \<^verbatim>\<open>" #"\<close> with its key.
  The code does not do this for the key 0: the row below has the die 0 as its one target
  (it counts one reference and passes the CHECK constraint), and \<^verbatim>\<open>analysis_id\<close>
  raises \<^verbatim>\<open>IndexError\<close> on it, since \<^verbatim>\<open>if v\<close> drops the value 0 as it drops
  \<^verbatim>\<open>None\<close>.
\<close>

theorem analysis_id_die_zero:
  "target_count (Analysis_init 6 JNull JNull ''plot.png'' ''h'' None (Some 0) None 1) = 1 \<and>
   analysis_pkeys_xor_constraint (Analysis_init 6 JNull JNull ''plot.png'' ''h'' None (Some 0) None 1) \<and>
   analysis_id iv_curve (Analysis_init 6 JNull JNull ''plot.png'' ''h'' None (Some 0) None 1)
     = Inl IndexError"
  by (simp add: analysis_id_cases truthy_def target_count_def Analysis_init_def
      analysis_pkeys_xor_constraint_def)

text \<open>
  C10. \<^verbatim>\<open>analysis_id\<close> fails with \<^verbatim>\<open>IndexError\<close> on a row whose three target
  references are all NULL, and with exactly one reference set it should not fail. The
  first holds; the second does not: the row below has the wafer 0 as its one target,
  passes the CHECK constraint, and \<^verbatim>\<open>analysis_id\<close> still raises \<^verbatim>\<open>IndexError\<close>.
\<close>

theorem analysis_id_partial:
  "analysis_id iv_curve (Analysis_init 6 JNull JNull ''plot.png'' ''h'' None None None 1)
     = Inl IndexError \<and>
   analysis_pkeys_xor_constraint (Analysis_init 6 JNull JNull ''plot.png'' ''h'' None None (Some 0) 1) \<and>
   analysis_id iv_curve (Analysis_init 6 JNull JNull ''plot.png'' ''h'' None None (Some 0) 1)
     = Inl IndexError"
  by (simp add: analysis_id_cases truthy_def Analysis_init_def analysis_pkeys_xor_constraint_def)

text \<open>
  With a key other than 0, the display name is as described: the function's id and
  \<^verbatim>\<open>Device Data #k\<close>, \<^verbatim>\<open>Die #k\<close> or \<^verbatim>\<open>Wafer #k\<close>, whichever reference is the one
  that is set. As a function of the row and its analysis function it gives the same
  string each time it is read.
\<close>

theorem analysis_id_of_target:
  "k \<noteq> 0 \<longrightarrow>
   (a_device_data_pkey a = Some k \<and> a_die_pkey a = None \<and> a_wafer_pkey a = None \<longrightarrow>
      analysis_id f a = Inr (af_analysis_function_id f @ '' on Device Data #'' @ str_int k)) \<and>
   (a_device_data_pkey a = None \<and> a_die_pkey a = Some k \<and> a_wafer_pkey a = None \<longrightarrow>
      analysis_id f a = Inr (af_analysis_function_id f @ '' on Die #'' @ str_int k)) \<and>
   (a_device_data_pkey a = None \<and> a_die_pkey a = None \<and> a_wafer_pkey a = Some k \<longrightarrow>
      analysis_id f a = Inr (af_analysis_function_id f @ '' on Wafer #'' @ str_int k))"
  by (simp add: analysis_id_cases truthy_def str_opt_def)

theorem analysis_id_of_target_witness:
  "analysis_id iv_curve (Analysis_init 6 JNull JNull ''plot.png'' ''h'' None (Some 7) None 1)
     = Inr ''iv_curve on Die #7'' \<and>
   analysis_id iv_curve (Analysis_init 6 JNull JNull ''plot.png'' ''h'' (Some 42) None None 1)
     = Inr ''iv_curve on Device Data #42''"
proof -
  have "(7::int) \<noteq> 0" "(42::int) \<noteq> 0" by simp_all
  with analysis_id_of_target [of 7 "Analysis_init 6 JNull JNull ''plot.png'' ''h'' None (Some 7) None 1" iv_curve]
    analysis_id_of_target [of 42 "Analysis_init 6 JNull JNull ''plot.png'' ''h'' (Some 42) None None 1" iv_curve]
  show ?thesis
    by (simp add: Analysis_init_def iv_curve_def AnalysisFunction_init_def str_int_examples)
qed

section \<open>At most one latest result\<close>

lemma filter_le1_unique:
  "length (filter P xs) \<le> 1 \<Longrightarrow> x \<in> set xs \<Longrightarrow> P x \<Longrightarrow> y \<in> set xs \<Longrightarrow> P y \<Longrightarrow> x = y"
  by (induction xs) (auto split: if_splits simp: filter_empty_conv)

lemma filter_le1_singleton:
  "length (filter P xs) \<le> 1 \<Longrightarrow> x \<in> set xs \<Longrightarrow> P x \<Longrightarrow> filter P xs = [x]"
  by (induction xs) (auto split: if_splits simp: filter_empty_conv)

lemma find_filter_singleton: "filter P xs = [x] \<Longrightarrow> find P xs = Some x"
  by (induction xs) (auto split: if_splits)


lemma latest_for_unflagged [simp]: "\<not> latest_for f t (unflagged a)"
  by (simp add: latest_for_def unflagged_def)


lemma demote_no_latest:
  assumes "length (filter (latest_for f t) rows) \<le> 1"
  shows "filter (latest_for f t) (demote (find (latest_for f t) rows) rows) = []"
proof (cases "find (latest_for f t) rows")
  case None
  then have "\<not> latest_for f t x" if "x \<in> set rows" for x
    using that by (simp add: find_None_iff)
  with None show ?thesis by (simp add: demote_def filter_empty_conv)
next
  case (Some prev)
  then have prev: "prev \<in> set rows" "latest_for f t prev"
    by (auto simp: find_Some_iff)
  define g where "g = (\<lambda>r. if a_pkey r = a_pkey prev then unflagged r else r)"
  have "\<not> latest_for f t (g r)" if "r \<in> set rows" for r
  proof (cases "latest_for f t r")
    case True
    with assms prev that have "r = prev" by (rule_tac filter_le1_unique)
    then show ?thesis by (simp add: g_def)
  next
    case False
    then show ?thesis by (simp add: g_def)
  qed
  then have "filter (latest_for f t) (map g rows) = []"
    by (auto simp: filter_empty_conv)
  with Some show ?thesis by (simp add: demote_def g_def)
qed

lemma record_result_Inr:
  assumes "record_result fp s now f t p out plot = Inr (s', r)"
  shows "(s' = s \<and> find (latest_for f t) (analyses s) = Some r \<and> a_input_hash r = fp p s t) \<or>
         (\<exists>k. r = new_row now p out plot (fp p s t) t f\<lparr>a_pkey := Some k\<rparr> \<and>
              s' = s\<lparr>analyses := demote (find (latest_for f t) (analyses s)) (analyses s) @ [r]\<rparr>)"
  using assms
  unfolding record_result_def reusable_def supersede_def new_row_def Let_def
  by (auto split: option.splits if_splits sum.splits prod.splits dest!: stored_analysis_Inr)

lemma target_columns_inj: "target_columns t = target_columns t' \<Longrightarrow> t = t'"
  by (cases t; cases t') auto

lemma latest_for_new_row:
  "latest_for f' t' (new_row now p out plot h t f\<lparr>a_pkey := k\<rparr>) = (f' = f \<and> t' = t)"
  by (cases t; cases t')
    (auto simp: latest_for_def new_row_def Analysis_init_def analysis_columns_def)











lemma record_result_only_latest:
  assumes rr: "record_result fp s now f t p out plot = Inr (s', r)"
    and inv: "latest_count s f t \<le> 1"
  shows "filter (latest_for f t) (analyses s') = [r]"
proof -
  from inv have le: "length (filter (latest_for f t) (analyses s)) \<le> 1"
    by (simp add: latest_count_def)
  from record_result_Inr[OF rr] show ?thesis
  proof
    assume a: "s' = s \<and> find (latest_for f t) (analyses s) = Some r \<and> a_input_hash r = fp p s t"
    then have "r \<in> set (analyses s)" "latest_for f t r" by (auto simp: find_Some_iff)
    with le a show ?thesis by (simp add: filter_le1_singleton)
  next
    assume "\<exists>k. r = new_row now p out plot (fp p s t) t f\<lparr>a_pkey := Some k\<rparr> \<and>
              s' = s\<lparr>analyses := demote (find (latest_for f t) (analyses s)) (analyses s) @ [r]\<rparr>"
    then obtain k where r: "r = new_row now p out plot (fp p s t) t f\<lparr>a_pkey := Some k\<rparr>"
      and s': "analyses s' = demote (find (latest_for f t) (analyses s)) (analyses s) @ [r]"
      by auto
    from demote_no_latest[OF le] s' r show ?thesis
      by (simp add: latest_for_new_row)
  qed
qed

text \<open>The store of the measurement, and the first run of \<^verbatim>\<open>iv_curve\<close> at 25 degrees.\<close>

lemma measured_db_eq:
  "measured_db = placed_db\<lparr>device_datas := [iv_data\<lparr>dd_pkey := Some 1\<rparr>],
     analysis_functions := [iv_curve\<lparr>af_pkey := Some 1\<rparr>]\<rparr>"
  by (simp add: measured_db_def placed_db_eq design_db_eq iv_data_def iv_curve_def
      AnalysisFunction_init_def insert_device_data_def insert_analysis_function_def
      assign_pkey_def next_pkey_def pkeys_def List.map_filter_def fk_ok_def
      unique_analysis_function_id_version_def inst0_def)

lemma measured_db_sel:
  "foreign_keys measured_db = True" "analyses measured_db = []"
  "device_datas measured_db = [iv_data\<lparr>dd_pkey := Some 1\<rparr>]"
  "analysis_functions measured_db = [iv_curve\<lparr>af_pkey := Some 1\<rparr>]"
  "dies measured_db = []" "wafers measured_db = []"
  by (simp_all add: measured_db_eq placed_db_eq design_db_eq)


lemma first_call:
  "record_result params_fingerprint measured_db 6 1 (DeviceDataTarget 1) (temp 25) JNull ''iv.png''
     = Inr (measured_db\<lparr>analyses := [iv_result 6 25\<lparr>a_pkey := Some 1\<rparr>]\<rparr>,
            iv_result 6 25\<lparr>a_pkey := Some 1\<rparr>)"
  by (simp add: record_result_def Let_def reusable_def supersede_def stored_analysis_def
      measured_db_sel params_fingerprint_def temp_def iv_result_def Analysis_init_def
      analysis_pkeys_xor_constraint_def assign_pkey_def next_pkey_def pkeys_def
      List.map_filter_def fk_ok_def iv_data_def iv_curve_def AnalysisFunction_init_def
      demote_def str_int_temps)








section \<open>Recording the same result again\<close>

text \<open>
  C3. \<open>record_result\<close> is idempotent on unchanged input. When the latest Analysis of
  the function and the target exists and its \<^verbatim>\<open>input_hash\<close> is the hash of the new
  parameters and target state, the call returns that record and the store as it was: no
  row is inserted and none is changed. Hence, where the pair has at most one latest row,
  a second call with the same function, target and parameters and an unchanged
  fingerprint returns the store and the record of the first call.
\<close>

theorem record_result_idempotent:
  "(find (latest_for f t) (analyses s) = Some prev \<and>
    a_input_hash prev = fingerprint parameters s t \<longrightarrow>
      record_result fingerprint s now f t parameters output summary_plot = Inr (s, prev)) \<and>
   (latest_count s f t \<le> 1 \<and>
    record_result fingerprint s now f t parameters output summary_plot = Inr (s1, r1) \<and>
    fingerprint parameters s1 t = fingerprint parameters s t \<longrightarrow>
      record_result fingerprint s1 now' f t parameters output' summary_plot' = Inr (s1, r1))"
proof (intro conjI impI)
  assume "find (latest_for f t) (analyses s) = Some prev \<and>
    a_input_hash prev = fingerprint parameters s t"
  then show "record_result fingerprint s now f t parameters output summary_plot = Inr (s, prev)"
    by (simp add: record_result_def reusable_def)
next
  assume h: "latest_count s f t \<le> 1 \<and>
    record_result fingerprint s now f t parameters output summary_plot = Inr (s1, r1) \<and>
    fingerprint parameters s1 t = fingerprint parameters s t"
  then have rr: "record_result fingerprint s now f t parameters output summary_plot = Inr (s1, r1)"
    and inv: "latest_count s f t \<le> 1"
    and same: "fingerprint parameters s1 t = fingerprint parameters s t" by auto
  have only: "filter (latest_for f t) (analyses s1) = [r1]"
    by (rule record_result_only_latest[OF rr inv])
  have found: "find (latest_for f t) (analyses s1) = Some r1"
    by (rule find_filter_singleton[OF only])
  from record_result_Inr[OF rr] have "a_input_hash r1 = fingerprint parameters s t"
    by (cases t) (auto simp: new_row_def Analysis_init_def)
  with found same
  show "record_result fingerprint s1 now' f t parameters output' summary_plot' = Inr (s1, r1)"
    by (simp add: record_result_def reusable_def)
qed

text \<open>At work: the run at 25 degrees, recorded a second and a third time, returns the row
  of the first run and the store with that one row.\<close>

theorem record_result_idempotent_witness:
  "latest_count measured_db 1 (DeviceDataTarget 1) \<le> 1 \<and>
   record_result params_fingerprint measured_db 6 1 (DeviceDataTarget 1) (temp 25) JNull ''iv.png''
     = Inr (measured_db\<lparr>analyses := [iv_result 6 25\<lparr>a_pkey := Some 1\<rparr>]\<rparr>,
            iv_result 6 25\<lparr>a_pkey := Some 1\<rparr>) \<and>
   record_result params_fingerprint
       (measured_db\<lparr>analyses := [iv_result 6 25\<lparr>a_pkey := Some 1\<rparr>]\<rparr>) 9 1
       (DeviceDataTarget 1) (temp 25) (JInt 3) ''iv2.png''
     = Inr (measured_db\<lparr>analyses := [iv_result 6 25\<lparr>a_pkey := Some 1\<rparr>]\<rparr>,
            iv_result 6 25\<lparr>a_pkey := Some 1\<rparr>) \<and>
   find (latest_for 1 (DeviceDataTarget 1))
       (analyses (measured_db\<lparr>analyses := [iv_result 6 25\<lparr>a_pkey := Some 1\<rparr>]\<rparr>))
     = Some (iv_result 6 25\<lparr>a_pkey := Some 1\<rparr>) \<and>
   a_input_hash (iv_result 6 25\<lparr>a_pkey := Some 1\<rparr>) =
     params_fingerprint (temp 25)
       (measured_db\<lparr>analyses := [iv_result 6 25\<lparr>a_pkey := Some 1\<rparr>]\<rparr>) (DeviceDataTarget 1) \<and>
   record_result params_fingerprint
       (measured_db\<lparr>analyses := [iv_result 6 25\<lparr>a_pkey := Some 1\<rparr>]\<rparr>) 10 1
       (DeviceDataTarget 1) (temp 25) JNull ''iv.png''
     = Inr (measured_db\<lparr>analyses := [iv_result 6 25\<lparr>a_pkey := Some 1\<rparr>]\<rparr>,
            iv_result 6 25\<lparr>a_pkey := Some 1\<rparr>)"
proof -
  have inv: "latest_count measured_db 1 (DeviceDataTarget 1) \<le> 1"
    by (simp add: latest_count_def measured_db_sel)
  have same: "params_fingerprint (temp 25)
       (measured_db\<lparr>analyses := [iv_result 6 25\<lparr>a_pkey := Some 1\<rparr>]\<rparr>) (DeviceDataTarget 1) =
     params_fingerprint (temp 25) measured_db (DeviceDataTarget 1)"
    by (simp add: params_fingerprint_def)
  have found: "find (latest_for 1 (DeviceDataTarget 1))
       (analyses (measured_db\<lparr>analyses := [iv_result 6 25\<lparr>a_pkey := Some 1\<rparr>]\<rparr>))
     = Some (iv_result 6 25\<lparr>a_pkey := Some 1\<rparr>)"
    by (simp add: latest_for_def analysis_columns_def iv_result_def Analysis_init_def)
  have hash: "a_input_hash (iv_result 6 25\<lparr>a_pkey := Some 1\<rparr>) =
     params_fingerprint (temp 25)
       (measured_db\<lparr>analyses := [iv_result 6 25\<lparr>a_pkey := Some 1\<rparr>]\<rparr>) (DeviceDataTarget 1)"
    by (simp add: iv_result_def Analysis_init_def params_fingerprint_def temp_def)
  from inv first_call same
    record_result_idempotent [of 1 "DeviceDataTarget 1" measured_db _ params_fingerprint "temp 25"
      6 JNull "''iv.png''" "measured_db\<lparr>analyses := [iv_result 6 25\<lparr>a_pkey := Some 1\<rparr>]\<rparr>"
      "iv_result 6 25\<lparr>a_pkey := Some 1\<rparr>" 9 "JInt 3" "''iv2.png''"]
  have twice: "record_result params_fingerprint
       (measured_db\<lparr>analyses := [iv_result 6 25\<lparr>a_pkey := Some 1\<rparr>]\<rparr>) 9 1
       (DeviceDataTarget 1) (temp 25) (JInt 3) ''iv2.png''
     = Inr (measured_db\<lparr>analyses := [iv_result 6 25\<lparr>a_pkey := Some 1\<rparr>]\<rparr>,
            iv_result 6 25\<lparr>a_pkey := Some 1\<rparr>)" by blast
  from found hash
    record_result_idempotent [of 1 "DeviceDataTarget 1"
      "measured_db\<lparr>analyses := [iv_result 6 25\<lparr>a_pkey := Some 1\<rparr>]\<rparr>"
      "iv_result 6 25\<lparr>a_pkey := Some 1\<rparr>" params_fingerprint "temp 25" 10 JNull "''iv.png''"]
  have again: "record_result params_fingerprint
       (measured_db\<lparr>analyses := [iv_result 6 25\<lparr>a_pkey := Some 1\<rparr>]\<rparr>) 10 1
       (DeviceDataTarget 1) (temp 25) JNull ''iv.png''
     = Inr (measured_db\<lparr>analyses := [iv_result 6 25\<lparr>a_pkey := Some 1\<rparr>]\<rparr>,
            iv_result 6 25\<lparr>a_pkey := Some 1\<rparr>)" by blast
  from inv first_call twice found hash again show ?thesis by blast
qed

section \<open>Attributes in storage\<close>

text \<open>Decoding reads back what encoding wrote, whatever follows it in the sequence.\<close>

lemma decode_values_encode:
  assumes "\<And>v fuel rest. v \<in> set vs \<Longrightarrow> length (encode v) \<le> fuel \<Longrightarrow>
             decode_value fuel (encode v @ rest) = Some (v, rest)"
    and "length (concat (map encode vs)) \<le> fuel"
  shows "decode_values fuel (length vs) (concat (map encode vs) @ rest) = Some (vs, rest)"
  using assms
proof (induction vs arbitrary: rest)
  case Nil
  then show ?case by simp
next
  case (Cons v vs)
  from Cons.prems(2) have l: "length (encode v) \<le> fuel" "length (concat (map encode vs)) \<le> fuel"
    by simp_all
  from Cons.prems(1)[of v fuel "concat (map encode vs) @ rest"] l
  have "decode_value fuel (encode v @ concat (map encode vs) @ rest)
          = Some (v, concat (map encode vs) @ rest)" by simp
  moreover have "decode_values fuel (length vs) (concat (map encode vs) @ rest) = Some (vs, rest)"
  proof (rule Cons.IH)
    fix v' fuel' rest'
    assume "v' \<in> set vs" "length (encode v') \<le> fuel'"
    with Cons.prems(1)[of v' fuel' rest']
    show "decode_value fuel' (encode v' @ rest') = Some (v', rest')" by simp
  qed (rule l(2))
  ultimately show ?case by simp
qed

lemma decode_members_encode:
  assumes "\<And>k v fuel rest. (k, v) \<in> set kvs \<Longrightarrow> length (encode v) \<le> fuel \<Longrightarrow>
             decode_value fuel (encode v @ rest) = Some (v, rest)"
    and "length (concat (map (\<lambda>(k, v). TString k # encode v) kvs)) \<le> fuel"
  shows "decode_members fuel (length kvs)
           (concat (map (\<lambda>(k, v). TString k # encode v) kvs) @ rest) = Some (kvs, rest)"
  using assms
proof (induction kvs arbitrary: rest)
  case Nil
  then show ?case by simp
next
  case (Cons kv kvs)
  obtain k v where kv: "kv = (k, v)" by (cases kv)
  from Cons.prems(2) kv have l: "length (encode v) \<le> fuel"
    "length (concat (map (\<lambda>(k, v). TString k # encode v) kvs)) \<le> fuel"
    by simp_all
  from Cons.prems(1)[of k v fuel "concat (map (\<lambda>(k, v). TString k # encode v) kvs) @ rest"] l kv
  have "decode_value fuel (encode v @ concat (map (\<lambda>(k, v). TString k # encode v) kvs) @ rest)
          = Some (v, concat (map (\<lambda>(k, v). TString k # encode v) kvs) @ rest)" by simp
  moreover have "decode_members fuel (length kvs)
          (concat (map (\<lambda>(k, v). TString k # encode v) kvs) @ rest) = Some (kvs, rest)"
  proof (rule Cons.IH)
    fix k' v' fuel' rest'
    assume "(k', v') \<in> set kvs" "length (encode v') \<le> fuel'"
    with Cons.prems(1)[of k' v' fuel' rest']
    show "decode_value fuel' (encode v' @ rest') = Some (v', rest')" by simp
  qed (rule l(2))
  ultimately show ?case by (simp add: kv)
qed

lemma decode_value_encode:
  "length (encode v) \<le> fuel \<Longrightarrow> decode_value fuel (encode v @ rest) = Some (v, rest)"
proof (induction v arbitrary: fuel rest)
  case (JArray vs)
  then obtain f where f: "fuel = Suc f" and l: "length (concat (map encode vs)) \<le> f"
    by (cases fuel) auto
  have "decode_values f (length vs) (concat (map encode vs) @ rest) = Some (vs, rest)"
    by (rule decode_values_encode) (use JArray.IH l in auto)
  with f show ?case by simp
next
  case (JObject kvs)
  then obtain f where f: "fuel = Suc f"
    and l: "length (concat (map (\<lambda>(k, v). TString k # encode v) kvs)) \<le> f"
    by (cases fuel) auto
  have "decode_members f (length kvs)
          (concat (map (\<lambda>(k, v). TString k # encode v) kvs) @ rest) = Some (kvs, rest)"
  proof (rule decode_members_encode)
    fix k v fuel rest
    assume "(k, v) \<in> set kvs" "length (encode v) \<le> fuel"
    with JObject.IH[of "(k, v)" v fuel rest]
    show "decode_value fuel (encode v @ rest) = Some (v, rest)" by simp
  qed (rule l)
  with f show ?case by simp
qed (case_tac fuel; simp)+

lemma decode_encode: "decode (encode v) = Some v"
  using decode_value_encode[of v "length (encode v)" "[]"] by (simp add: decode_def)

text \<open>No constraint of a table reads the attributes of a row.\<close>

lemma attributes_not_constrained:
  "unique_id_and_project_on_cell rows (c\<lparr>c_attributes := v\<rparr>) = unique_id_and_project_on_cell rows c"
  "unique_device_cell_references (d\<lparr>d_attributes := v\<rparr>) = unique_device_cell_references d"
  "parent_cell_coordinate_reference_not_null (d\<lparr>d_attributes := v\<rparr>) =
     parent_cell_coordinate_reference_not_null d"
  "unique_coord_cells_on_device drows (d\<lparr>d_attributes := v\<rparr>) = unique_coord_cells_on_device drows d"
  "unique_device_ids_per_cell drows (d\<lparr>d_attributes := v\<rparr>) = unique_device_ids_per_cell drows d"
  "unique_wafer_id_per_project wrows (w\<lparr>w_attributes := v\<rparr>) = unique_wafer_id_per_project wrows w"
  "unique_wafer_die dirows (di\<lparr>di_attributes := v\<rparr>) = unique_wafer_die dirows di"
  "analysis_pkeys_xor_constraint (a\<lparr>a_attributes := v\<rparr>) = analysis_pkeys_xor_constraint a"
proof -
  have "same_coord_cells (d\<lparr>d_attributes := v\<rparr>) = same_coord_cells d"
    by (rule ext) (simp add: same_coord_cells_def)
  then show "unique_coord_cells_on_device drows (d\<lparr>d_attributes := v\<rparr>) =
      unique_coord_cells_on_device drows d"
    by (simp add: unique_coord_cells_on_device_def)
qed (simp_all add: constraint_defs split: option.splits)

lemma insert_cell_attributes:
  "insert_cell s c = Inr s' \<Longrightarrow>
     \<exists>k. insert_cell s (c\<lparr>c_attributes := v\<rparr>) =
           Inr (s\<lparr>cells := cells s @ [c\<lparr>c_attributes := v, c_pkey := Some k\<rparr>]\<rparr>)"
  unfolding insert_cell_def
  by (auto simp: attributes_not_constrained split: sum.splits if_splits)

lemma insert_device_attributes:
  "insert_device s d = Inr s' \<Longrightarrow>
     \<exists>k. insert_device s (d\<lparr>d_attributes := v\<rparr>) =
           Inr (s\<lparr>devices := devices s @ [d\<lparr>d_attributes := v, d_pkey := Some k\<rparr>]\<rparr>)"
  unfolding insert_device_def
  by (auto simp: attributes_not_constrained split: sum.splits if_splits)

lemma insert_wafer_attributes:
  "insert_wafer s w = Inr s' \<Longrightarrow>
     \<exists>k. insert_wafer s (w\<lparr>w_attributes := v\<rparr>) =
           Inr (s\<lparr>wafers := wafers s @ [w\<lparr>w_attributes := v, w_pkey := Some k\<rparr>]\<rparr>)"
  unfolding insert_wafer_def
  by (auto simp: attributes_not_constrained split: sum.splits if_splits)

lemma insert_die_attributes:
  "insert_die s d = Inr s' \<Longrightarrow>
     \<exists>k. insert_die s (d\<lparr>di_attributes := v\<rparr>) =
           Inr (s\<lparr>dies := dies s @ [d\<lparr>di_attributes := v, di_pkey := Some k\<rparr>]\<rparr>)"
  unfolding insert_die_def
  by (auto simp: attributes_not_constrained split: sum.splits if_splits)

lemma insert_device_data_attributes:
  "insert_device_data s r = Inr s' \<Longrightarrow>
     \<exists>k. insert_device_data s (r\<lparr>dd_attributes := v\<rparr>) =
           Inr (s\<lparr>device_datas := device_datas s @ [r\<lparr>dd_attributes := v, dd_pkey := Some k\<rparr>]\<rparr>)"
  unfolding insert_device_data_def
  by (auto simp: attributes_not_constrained split: sum.splits if_splits)

lemma insert_analysis_attributes:
  "insert_analysis s a = Inr s' \<Longrightarrow>
     \<exists>k. insert_analysis s (a\<lparr>a_attributes := v\<rparr>) =
           Inr (s\<lparr>analyses := analyses s @ [a\<lparr>a_attributes := v, a_pkey := Some k\<rparr>]\<rparr>)"
  unfolding insert_analysis_def stored_analysis_def
  by (auto simp: attributes_not_constrained split: sum.splits if_splits)

text \<open>
  C8. For each of Cell, Device, Wafer, Die, DeviceData and Analysis: the attributes are
  any JSON value, in particular any mapping from strings to scalars, lists and further
  mappings, nested to any depth. Written to storage and read back, every such value
  comes out as it went in, nesting and all. An object built without attributes has the
  empty mapping, not null; an object built with attributes has those. And a table takes
  a row with any attributes it would take with others, and stores the row with the
  attributes it was given: no constraint reads them.
\<close>

theorem attributes_round_trip:
  "decode (encode v) = Some v \<and>
   c_attributes (Cell_init now cell_id None project_pkey) = JObject [] \<and>
   d_attributes (Device_init now cell_pkey device_id None x y angle mirror parent_cell_pkey)
     = JObject [] \<and>
   w_attributes (Wafer_init now wafer_id description lot_id None project_pkey) = JObject [] \<and>
   di_attributes (Die_init now die_x die_y die_id None wafer_pkey) = JObject [] \<and>
   dd_attributes (DeviceData_init now data_type path thumbnail_path None plotting_kwargs valid
                    device_pkey die_pkey timestamp_acquired) = JObject [] \<and>
   a_attributes (Analysis_init now parameters out summary_plot input_hash target_device_data
                   target_die target_wafer analysis_function_pkey) = JObject [] \<and>
   c_attributes (Cell_init now cell_id (Some v) project_pkey) = v \<and>
   d_attributes (Device_init now cell_pkey device_id (Some v) x y angle mirror parent_cell_pkey)
     = v \<and>
   w_attributes (Wafer_init now wafer_id description lot_id (Some v) project_pkey) = v \<and>
   di_attributes (Die_init now die_x die_y die_id (Some v) wafer_pkey) = v \<and>
   dd_attributes (DeviceData_init now data_type path thumbnail_path (Some v) plotting_kwargs valid
                    device_pkey die_pkey timestamp_acquired) = v \<and>
   a_attributes (Analysis_with_attributes (Some v) a) = v \<and>
   (insert_cell s c = Inr sc \<longrightarrow>
      (\<exists>k. insert_cell s (c\<lparr>c_attributes := v\<rparr>) =
            Inr (s\<lparr>cells := cells s @ [c\<lparr>c_attributes := v, c_pkey := Some k\<rparr>]\<rparr>))) \<and>
   (insert_device s d = Inr sd \<longrightarrow>
      (\<exists>k. insert_device s (d\<lparr>d_attributes := v\<rparr>) =
            Inr (s\<lparr>devices := devices s @ [d\<lparr>d_attributes := v, d_pkey := Some k\<rparr>]\<rparr>))) \<and>
   (insert_wafer s w = Inr sw \<longrightarrow>
      (\<exists>k. insert_wafer s (w\<lparr>w_attributes := v\<rparr>) =
            Inr (s\<lparr>wafers := wafers s @ [w\<lparr>w_attributes := v, w_pkey := Some k\<rparr>]\<rparr>))) \<and>
   (insert_die s di = Inr sdi \<longrightarrow>
      (\<exists>k. insert_die s (di\<lparr>di_attributes := v\<rparr>) =
            Inr (s\<lparr>dies := dies s @ [di\<lparr>di_attributes := v, di_pkey := Some k\<rparr>]\<rparr>))) \<and>
   (insert_device_data s dd = Inr sdd \<longrightarrow>
      (\<exists>k. insert_device_data s (dd\<lparr>dd_attributes := v\<rparr>) =
            Inr (s\<lparr>device_datas := device_datas s @
                   [dd\<lparr>dd_attributes := v, dd_pkey := Some k\<rparr>]\<rparr>))) \<and>
   (insert_analysis s a = Inr sa \<longrightarrow>
      (\<exists>k. insert_analysis s (a\<lparr>a_attributes := v\<rparr>) =
            Inr (s\<lparr>analyses := analyses s @ [a\<lparr>a_attributes := v, a_pkey := Some k\<rparr>]\<rparr>)))"
proof -
  have codec: "decode (encode v) = Some v" by (rule decode_encode)
  have defaults:
    "c_attributes (Cell_init now cell_id None project_pkey) = JObject []"
    "d_attributes (Device_init now cell_pkey device_id None x y angle mirror parent_cell_pkey)
       = JObject []"
    "w_attributes (Wafer_init now wafer_id description lot_id None project_pkey) = JObject []"
    "di_attributes (Die_init now die_x die_y die_id None wafer_pkey) = JObject []"
    "dd_attributes (DeviceData_init now data_type path thumbnail_path None plotting_kwargs valid
                    device_pkey die_pkey timestamp_acquired) = JObject []"
    "a_attributes (Analysis_init now parameters out summary_plot input_hash target_device_data
                   target_die target_wafer analysis_function_pkey) = JObject []"
    by (simp_all add: Cell_init_def Device_init_def Wafer_init_def Die_init_def
        DeviceData_init_def Analysis_init_def attributes_or_default_def)
  have given:
    "c_attributes (Cell_init now cell_id (Some v) project_pkey) = v"
    "d_attributes (Device_init now cell_pkey device_id (Some v) x y angle mirror parent_cell_pkey)
       = v"
    "w_attributes (Wafer_init now wafer_id description lot_id (Some v) project_pkey) = v"
    "di_attributes (Die_init now die_x die_y die_id (Some v) wafer_pkey) = v"
    "dd_attributes (DeviceData_init now data_type path thumbnail_path (Some v) plotting_kwargs valid
                    device_pkey die_pkey timestamp_acquired) = v"
    "a_attributes (Analysis_with_attributes (Some v) a) = v"
    by (simp_all add: Cell_init_def Device_init_def Wafer_init_def Die_init_def
        DeviceData_init_def Analysis_with_attributes_def attributes_or_default_def)
  note admitted = insert_cell_attributes[of s c sc v] insert_device_attributes[of s d sd v]
    insert_wafer_attributes[of s w sw v] insert_die_attributes[of s di sdi v]
    insert_device_data_attributes[of s dd sdd v] insert_analysis_attributes[of s a sa v]
  from codec defaults given admitted show ?thesis by blast
qed

text \<open>At work: the attributes of a ring resonator, a mapping that holds a number, a
  list and a further mapping with a list in it, go through the encoding unchanged, and
  a row of each of the six tables is stored with them.\<close>

lemma ring_tokens:
  "encode ring_attributes =
     [TObject 3, TString ''wavelength'', TFloat 1.55, TString ''tags'', TArray 3, TString ''ring'',
      TBool True, TNull, TString ''geometry'', TObject 2, TString ''width'', TInt 500,
      TString ''layers'', TArray 2, TInt 1, TInt 2]"
  by (simp add: ring_attributes_def)

lemma example_inserts:
  "insert_cell (empty_db False) cell_top =
     Inr ((empty_db False)\<lparr>cells := [cell_top\<lparr>c_pkey := Some 1\<rparr>]\<rparr>)"
  "insert_device (empty_db False) inst0 =
     Inr ((empty_db False)\<lparr>devices := [inst0\<lparr>d_pkey := Some 1\<rparr>]\<rparr>)"
  "insert_wafer (empty_db False) wafer_w1 =
     Inr ((empty_db False)\<lparr>wafers := [wafer_w1\<lparr>w_pkey := Some 1\<rparr>]\<rparr>)"
  "insert_die (empty_db False) die_00 =
     Inr ((empty_db False)\<lparr>dies := [die_00\<lparr>di_pkey := Some 1\<rparr>]\<rparr>)"
  "insert_device_data (empty_db False) iv_data =
     Inr ((empty_db False)\<lparr>device_datas := [iv_data\<lparr>dd_pkey := Some 1\<rparr>]\<rparr>)"
  "insert_analysis (empty_db False) (iv_result 6 25) =
     Inr ((empty_db False)\<lparr>analyses := [iv_result 6 25\<lparr>a_pkey := Some 1\<rparr>]\<rparr>)"
  by (simp_all add: insert_defs constraint_defs cell_top_def inst0_def wafer_w1_def die_00_def
      iv_data_def iv_result_def Analysis_init_def Wafer_init_def Die_init_def)

theorem attributes_round_trip_witness:
  "decode (encode ring_attributes) = Some ring_attributes \<and>
   c_attributes (Cell_init 1 ''top'' None 1) = JObject [] \<and>
   c_attributes (Cell_init 1 ''top'' (Some ring_attributes) 1) = ring_attributes \<and>
   insert_cell (empty_db False) cell_top =
     Inr ((empty_db False)\<lparr>cells := [cell_top\<lparr>c_pkey := Some 1\<rparr>]\<rparr>) \<and>
   (\<exists>k. insert_cell (empty_db False) (cell_top\<lparr>c_attributes := ring_attributes\<rparr>) =
     Inr ((empty_db False)\<lparr>cells := cells (empty_db False) @
            [cell_top\<lparr>c_attributes := ring_attributes, c_pkey := Some k\<rparr>]\<rparr>)) \<and>
   insert_device (empty_db False) inst0 =
     Inr ((empty_db False)\<lparr>devices := [inst0\<lparr>d_pkey := Some 1\<rparr>]\<rparr>) \<and>
   (\<exists>k. insert_device (empty_db False) (inst0\<lparr>d_attributes := ring_attributes\<rparr>) =
     Inr ((empty_db False)\<lparr>devices := devices (empty_db False) @
            [inst0\<lparr>d_attributes := ring_attributes, d_pkey := Some k\<rparr>]\<rparr>)) \<and>
   insert_wafer (empty_db False) wafer_w1 =
     Inr ((empty_db False)\<lparr>wafers := [wafer_w1\<lparr>w_pkey := Some 1\<rparr>]\<rparr>) \<and>
   (\<exists>k. insert_wafer (empty_db False) (wafer_w1\<lparr>w_attributes := ring_attributes\<rparr>) =
     Inr ((empty_db False)\<lparr>wafers := wafers (empty_db False) @
            [wafer_w1\<lparr>w_attributes := ring_attributes, w_pkey := Some k\<rparr>]\<rparr>)) \<and>
   insert_die (empty_db False) die_00 =
     Inr ((empty_db False)\<lparr>dies := [die_00\<lparr>di_pkey := Some 1\<rparr>]\<rparr>) \<and>
   (\<exists>k. insert_die (empty_db False) (die_00\<lparr>di_attributes := ring_attributes\<rparr>) =
     Inr ((empty_db False)\<lparr>dies := dies (empty_db False) @
            [die_00\<lparr>di_attributes := ring_attributes, di_pkey := Some k\<rparr>]\<rparr>)) \<and>
   insert_device_data (empty_db False) iv_data =
     Inr ((empty_db False)\<lparr>device_datas := [iv_data\<lparr>dd_pkey := Some 1\<rparr>]\<rparr>) \<and>
   (\<exists>k. insert_device_data (empty_db False) (iv_data\<lparr>dd_attributes := ring_attributes\<rparr>) =
     Inr ((empty_db False)\<lparr>device_datas := device_datas (empty_db False) @
            [iv_data\<lparr>dd_attributes := ring_attributes, dd_pkey := Some k\<rparr>]\<rparr>)) \<and>
   insert_analysis (empty_db False) (iv_result 6 25) =
     Inr ((empty_db False)\<lparr>analyses := [iv_result 6 25\<lparr>a_pkey := Some 1\<rparr>]\<rparr>) \<and>
   (\<exists>k. insert_analysis (empty_db False) (iv_result 6 25\<lparr>a_attributes := ring_attributes\<rparr>) =
     Inr ((empty_db False)\<lparr>analyses := analyses (empty_db False) @
            [iv_result 6 25\<lparr>a_attributes := ring_attributes, a_pkey := Some k\<rparr>]\<rparr>))"
proof -
  note t = attributes_round_trip [where v = ring_attributes and now = 1 and cell_id = "''top''"
      and project_pkey = 1 and s = "empty_db False"
      and c = cell_top and sc = "(empty_db False)\<lparr>cells := [cell_top\<lparr>c_pkey := Some 1\<rparr>]\<rparr>"
      and d = inst0 and sd = "(empty_db False)\<lparr>devices := [inst0\<lparr>d_pkey := Some 1\<rparr>]\<rparr>"
      and w = wafer_w1 and sw = "(empty_db False)\<lparr>wafers := [wafer_w1\<lparr>w_pkey := Some 1\<rparr>]\<rparr>"
      and di = die_00 and sdi = "(empty_db False)\<lparr>dies := [die_00\<lparr>di_pkey := Some 1\<rparr>]\<rparr>"
      and dd = iv_data
      and sdd = "(empty_db False)\<lparr>device_datas := [iv_data\<lparr>dd_pkey := Some 1\<rparr>]\<rparr>"
      and a = "iv_result 6 25"
      and sa = "(empty_db False)\<lparr>analyses := [iv_result 6 25\<lparr>a_pkey := Some 1\<rparr>]\<rparr>"
      and cell_pkey = 2 and device_id = "''inst0''" and x = None and y = None and angle = None
      and mirror = None and parent_cell_pkey = None and wafer_id = "''W1''"
      and description = None and lot_id = None and die_x = 0 and die_y = 0 and die_id = None
      and wafer_pkey = 1 and data_type = measurement and path = "''data/iv.csv''"
      and thumbnail_path = None and plotting_kwargs = None and valid = None
      and device_pkey = "Some 1" and die_pkey = None and timestamp_acquired = None
      and parameters = JNull and out = JNull and summary_plot = "''iv.png''"
      and input_hash = "''h''" and target_device_data = "Some 1" and target_die = None
      and target_wafer = None and analysis_function_pkey = 1]
  from t have codec: "decode (encode ring_attributes) = Some ring_attributes" by (rule conjunct1)
  from t have dflt: "c_attributes (Cell_init 1 ''top'' None 1) = JObject []" by blast
  from t have given: "c_attributes (Cell_init 1 ''top'' (Some ring_attributes) 1) = ring_attributes"
    by blast
  from t example_inserts(1)
  have c: "\<exists>k. insert_cell (empty_db False) (cell_top\<lparr>c_attributes := ring_attributes\<rparr>) =
     Inr ((empty_db False)\<lparr>cells := cells (empty_db False) @
            [cell_top\<lparr>c_attributes := ring_attributes, c_pkey := Some k\<rparr>]\<rparr>)" by blast
  from t example_inserts(2)
  have d: "\<exists>k. insert_device (empty_db False) (inst0\<lparr>d_attributes := ring_attributes\<rparr>) =
     Inr ((empty_db False)\<lparr>devices := devices (empty_db False) @
            [inst0\<lparr>d_attributes := ring_attributes, d_pkey := Some k\<rparr>]\<rparr>)" by blast
  from t example_inserts(3)
  have w: "\<exists>k. insert_wafer (empty_db False) (wafer_w1\<lparr>w_attributes := ring_attributes\<rparr>) =
     Inr ((empty_db False)\<lparr>wafers := wafers (empty_db False) @
            [wafer_w1\<lparr>w_attributes := ring_attributes, w_pkey := Some k\<rparr>]\<rparr>)" by blast
  from t example_inserts(4)
  have di: "\<exists>k. insert_die (empty_db False) (die_00\<lparr>di_attributes := ring_attributes\<rparr>) =
     Inr ((empty_db False)\<lparr>dies := dies (empty_db False) @
            [die_00\<lparr>di_attributes := ring_attributes, di_pkey := Some k\<rparr>]\<rparr>)" by blast
  from t example_inserts(5)
  have dd: "\<exists>k. insert_device_data (empty_db False) (iv_data\<lparr>dd_attributes := ring_attributes\<rparr>) =
     Inr ((empty_db False)\<lparr>device_datas := device_datas (empty_db False) @
            [iv_data\<lparr>dd_attributes := ring_attributes, dd_pkey := Some k\<rparr>]\<rparr>)" by blast
  from t example_inserts(6)
  have a: "\<exists>k. insert_analysis (empty_db False) (iv_result 6 25\<lparr>a_attributes := ring_attributes\<rparr>) =
     Inr ((empty_db False)\<lparr>analyses := analyses (empty_db False) @
            [iv_result 6 25\<lparr>a_attributes := ring_attributes, a_pkey := Some k\<rparr>]\<rparr>)" by blast
  show ?thesis
    by (intro conjI codec dflt given c d w di dd a example_inserts)
qed

section \<open>Further invariants of the store\<close>

lemma self_ref_pkey [simp]:
  "unique_device_cell_references (d\<lparr>d_pkey := k\<rparr>) = unique_device_cell_references d"
  by (simp add: unique_device_cell_references_def split: option.splits)

lemma execute_device_refs:
  assumes "execute s c = Inr s'"
    and "list_all unique_device_cell_references (devices s)"
  shows "list_all unique_device_cell_references (devices s')"
proof (cases c)
  case (AddDevice d)
  with assms(1) have "insert_device s d = Inr s'" by simp
  from insert_device_Inr[OF this] assms(2) show ?thesis by auto
qed (use assms in \<open>auto simp: insert_project_def insert_cell_def insert_analysis_def
      insert_wafer_def insert_die_def insert_device_data_def insert_analysis_function_def
      split: if_splits sum.splits\<close>)

text \<open>
  No Device of the store is placed in its own cell: \<^verbatim>\<open>parent_cell_pkey\<close> is never the
  device's \<^verbatim>\<open>cell_pkey\<close>, by the CHECK constraint \<^verbatim>\<open>unique_device_cell_references\<close>.
\<close>

theorem device_not_placed_in_own_cell:
  "d \<in> set (devices (run (empty_db fk) cs)) \<longrightarrow> d_parent_cell_pkey d \<noteq> Some (d_cell_pkey d)"
proof
  assume "d \<in> set (devices (run (empty_db fk) cs))"
  moreover have "list_all unique_device_cell_references (devices (run (empty_db fk) cs))"
    by (rule run_invariant) (simp add: empty_db_def, rule execute_device_refs)
  ultimately have "unique_device_cell_references d" by (simp add: list_all_iff)
  then show "d_parent_cell_pkey d \<noteq> Some (d_cell_pkey d)"
    by (auto simp: unique_device_cell_references_def)
qed

theorem device_not_placed_in_own_cell_witness:
  "inst0\<lparr>d_pkey := Some 1\<rparr> \<in> set (devices (run (empty_db True)
       [AddProject P1, AddCell cell_top, AddCell cell_leaf, AddDevice inst0])) \<and>
   d_parent_cell_pkey (inst0\<lparr>d_pkey := Some 1\<rparr>) \<noteq> Some (d_cell_pkey (inst0\<lparr>d_pkey := Some 1\<rparr>)) \<and>
   insert_device design_db (inst0\<lparr>d_parent_cell_pkey := Some 2\<rparr>) = Inl ConstraintViolation"
proof -
  have m: "inst0\<lparr>d_pkey := Some 1\<rparr> \<in> set (devices (run (empty_db True)
       [AddProject P1, AddCell cell_top, AddCell cell_leaf, AddDevice inst0]))"
    by (simp add: example_defs insert_defs constraint_defs)
  have r: "insert_device design_db (inst0\<lparr>d_parent_cell_pkey := Some 2\<rparr>) = Inl ConstraintViolation"
    by (simp add: insert_device_def unique_device_cell_references_def inst0_def)
  from m r device_not_placed_in_own_cell [of "inst0\<lparr>d_pkey := Some 1\<rparr>" True
      "[AddProject P1, AddCell cell_top, AddCell cell_leaf, AddDevice inst0]"]
  show ?thesis by blast
qed

lemma execute_versions:
  assumes "execute s c = Inr s'"
    and "distinct (map version_key (analysis_functions s))"
  shows "distinct (map version_key (analysis_functions s'))"
proof (cases c)
  case (AddAnalysisFunction f)
  with assms(1) obtain k where u: "unique_analysis_function_id_version (analysis_functions s) f"
    and s': "analysis_functions s' = analysis_functions s @ [f\<lparr>af_pkey := Some k\<rparr>]"
    by (auto simp: insert_analysis_function_def split: sum.splits if_splits)
  from u have "version_key f \<notin> set (map version_key (analysis_functions s))"
    by (auto simp: unique_analysis_function_id_version_def list_ex_iff version_key_def)
  with s' assms(2) show ?thesis by (simp add: version_key_def)
qed (use assms in \<open>auto simp: insert_project_def insert_cell_def insert_analysis_def
      insert_wafer_def insert_die_def insert_device_data_def insert_device_def
      stored_analysis_def split: if_splits sum.splits\<close>)

text \<open>
  No two AnalysisFunction rows of the store have the same id and version, whatever
  sequence of insertions built it.
\<close>

theorem analysis_function_versions_distinct:
  "distinct (map version_key (analysis_functions (run (empty_db fk) cs)))"
  by (rule run_invariant) (simp add: empty_db_def, rule execute_versions)

end
